theory Spec2Isabelle
  imports Main "HOL-Library.AList"
begin

section \<open>FriendlyChat: data model\<close>

text \<open>
  A shallow embedding of \<^verbatim>\<open>src/scripts/main.js\<close>. The object \<^verbatim>\<open>this\<close> of
  \<^verbatim>\<open>FriendlyChat\<close>, the parts of the page it touches and the two SDK objects it
  holds are one record \<open>state\<close>; every method is a function from the state to the
  state. A method that can throw returns \<open>(error \<times> state) + state\<close>: the mutations made
  before the throw are kept, as in JavaScript.

  Modelling boundary.
  \<^item> JavaScript values that may be \<^verbatim>\<open>undefined\<close> or \<^verbatim>\<open>null\<close> are options; a string is
    truthy when it is present and not empty.
  \<^item> \<^verbatim>\<open>document.getElementById\<close> in \<open>displayMessage\<close> and \<open>displayUser\<close>, whose
    argument is a key assigned by the store or a uid assigned by the auth service, is a
    lookup among the message cards or among the roster entries: these keys and uids are
    taken to differ from every other id of the document. In \<open>getUserByPeerId\<close> the
    argument is the peer identifier of an inbound call, which the remote party chooses;
    there the lookup walks the whole document in tree order (\<open>getElementById\<close> below).
    The markup of the page is not part of the repository: its elements that carry an id
    come with the state, as the field \<open>page\<close>.
  \<^item> The fade-in class added by the 1 ms timer and the scrolling of the feed are
    presentational and left out.
  \<^item> The realtime store, the peer broker and the media device are the environment: what
    they deliver is an input of the model (an event function), what the program asks of
    them is recorded in the state.
\<close>

datatype error = TypeError

definition css_url :: "string \<Rightarrow> string" where
  "css_url u = ''url('' @ u @ '')''"

definition truthy :: "string option \<Rightarrow> bool" where
  "truthy v = (case v of None \<Rightarrow> False | Some t \<Rightarrow> t \<noteq> [])"

text \<open>Conversion of a possibly undefined value to the string used as a property key.\<close>

fun dom_string :: "string option \<Rightarrow> string" where
  "dom_string None = ''undefined''"
| "dom_string (Some t) = t"

record auth_user =
  a_uid :: string
  a_displayName :: string
  a_email :: string
  a_photoURL :: "string option"

record user_val =
  v_name :: string
  v_email :: string
  v_photoUrl :: "string option"
  v_peerId :: "string option"

record message_val =
  m_name :: string
  m_text :: "string option"
  m_photoUrl :: "string option"
  m_imageUrl :: "string option"

record file_obj =
  f_name :: string
  f_type :: string

text \<open>What the program asks of the store.\<close>

datatype store_write =
    PushMessage message_val
  | PushImageMessage message_val file_obj
  | SetUser string user_val
  | OnDisconnectRemove string

datatype child_ev = child_added | child_changed | child_removed

datatype users_handler = setUser | unsetUser

text \<open>The click listeners of a call button, and the snackbar's action.\<close>

datatype click_handler = ClickEndCall | ClickCallToUser string

record called_user =
  cu_uid :: "string option"
  cu_name :: string
  cu_peerId :: string

datatype snack_action = AnswerAction called_user nat

record notification =
  n_message :: "string option"
  n_timeout :: nat
  n_action :: "(string \<times> snack_action) option"

text \<open>
  A roster entry is the element stamped from \<^verbatim>\<open>USER_TEMPLATE\<close>: the outer
  \<^verbatim>\<open>div\<close> with its id, the \<^verbatim>\<open>.pic\<close> background, the \<^verbatim>\<open>.name\<close> text and the
  \<^verbatim>\<open>a.phone\<close> button (absent once removed) with its id, the text of its icon and its
  click listeners. A listener is a closure; its identity is a number.
\<close>

record phone_btn =
  p_id :: "string option"
  p_icon :: string
  p_listeners :: "(nat \<times> click_handler) list"

record user_entry =
  u_id :: string
  u_pic :: "string option"
  u_name :: string
  u_phone :: "phone_btn option"

text \<open>A message card stamped from \<^verbatim>\<open>MESSAGE_TEMPLATE\<close>.\<close>

datatype body = NoBody | Html string | Image nat

record message_entry =
  e_key :: string
  e_pic :: "string option"
  e_name :: string
  e_body :: body

text \<open>
  The document in tree order, as far as ids go: the static elements of the markup that
  carry an id, the children of \<^verbatim>\<open>#messages\<close> and the children of \<^verbatim>\<open>#users\<close>. A static
  element comes with what lines 507 to 513 compute from it: an exception, or the
  \<^verbatim>\<open>id\<close> attribute of its parent (null when there is none) and the text of the first
  element of class \<^verbatim>\<open>name\<close> under its parent, which may lie in one of the two lists.
\<close>

datatype region =
    StaticElement string "message_entry list \<Rightarrow> user_entry list \<Rightarrow> error + string option \<times> string"
  | MessagesChildren
  | UsersChildren

text \<open>The broker's objects.\<close>

datatype call_ev = ev_close | ev_error | ev_stream

datatype call_handler = OnCloseEndCall | OnErrorEndCall | OnStream

record call_obj =
  c_peer :: "string option"
  c_stream :: "nat option"
  c_engaged :: bool
  c_closed :: bool
  c_handlers :: "(call_ev \<times> call_handler) list"

record peer_obj =
  connections :: "(string \<times> nat list) list"

datatype media_cb = AfterSignIn | RetryCallToUser

datatype log_entry = LogError | LogWriteError

record state =
  page :: "region list"
  currentUser :: "auth_user option"
  userPic :: string
  userName :: string
  profileHidden :: bool
  signInHidden :: bool
  messageInput :: string
  submitDisabled :: bool
  picker :: "file_obj option"
  snackbar :: "notification list"
  console :: "log_entry list"
  store_writes :: "store_write list"
  messagesRef :: bool
  messages_listeners :: "(nat \<times> child_ev) list"
  messageList :: "message_entry list"
  images :: "string list"
  storage_pending :: "(nat \<times> string) list"
  users_db :: "(string \<times> user_val) list"
  users_listeners :: "(child_ev \<times> users_handler) list"
  userList :: "user_entry list"
  CALL_EVENTLISTERS :: "string \<Rightarrow> (nat \<times> click_handler) option"
  next_listener :: nat
  mediaStream :: "nat option"
  myVideo :: "nat option"
  peerVideo :: "nat option"
  media_requests :: "media_cb list"
  peer :: "peer_obj option"
  this_peerId :: "string option"
  calls :: "call_obj list"
  call :: "nat option"
  isOnline :: "bool option"

type_synonym result = "(error \<times> state) + state"

definition res_state :: "result \<Rightarrow> state" where
  "res_state r = (case r of Inl (e, s) \<Rightarrow> s | Inr s \<Rightarrow> s)"

definition threw :: "result \<Rightarrow> bool" where
  "threw r = (case r of Inl x \<Rightarrow> True | Inr s \<Rightarrow> False)"

section \<open>Roster: displayUser, clearUsers, loadUsers, reloadUsers\<close>

definition USER_TEMPLATE :: "user_entry" where
  "USER_TEMPLATE =
     \<lparr>u_id = [], u_pic = None, u_name = [],
      u_phone = Some \<lparr>p_id = None, p_icon = [], p_listeners = []\<rparr>\<rparr>"

text \<open>Replace the first element that satisfies \<open>P\<close>: a mutation of the element found.\<close>

fun upd_first :: "('a \<Rightarrow> bool) \<Rightarrow> ('a \<Rightarrow> 'a) \<Rightarrow> 'a list \<Rightarrow> 'a list" where
  "upd_first P f [] = []"
| "upd_first P f (x # xs) = (if P x then f x # xs else x # upd_first P f xs)"

definition getUserDiv :: "state \<Rightarrow> string \<Rightarrow> user_entry option" where
  "getUserDiv s uid = find (\<lambda>e. u_id e = uid) (userList s)"

definition setUserDiv :: "string \<Rightarrow> user_entry \<Rightarrow> state \<Rightarrow> state" where
  "setUserDiv uid d s = s\<lparr>userList := upd_first (\<lambda>e. u_id e = uid) (\<lambda>e. d) (userList s)\<rparr>"

text \<open>Lines 394 to 402: the element is stamped from the template when the id has none.\<close>

definition ensureUserDiv :: "state \<Rightarrow> string \<Rightarrow> state" where
  "ensureUserDiv s uid =
     (if getUserDiv s uid = None
      then s\<lparr>userList := userList s @ [USER_TEMPLATE\<lparr>u_id := uid\<rparr>]\<rparr> else s)"

text \<open>
  \<^verbatim>\<open>this.peer.connections[peerId]\<close> read as a condition. The table is a plain object:
  the value is truthy when the table has the key (an array, also an empty one), and for
  the names every object inherits from \<^verbatim>\<open>Object.prototype\<close>.
\<close>

definition OBJECT_PROTOTYPE_NAMES :: "string list" where
  "OBJECT_PROTOTYPE_NAMES =
     [''constructor'', ''hasOwnProperty'', ''isPrototypeOf'', ''propertyIsEnumerable'',
      ''toLocaleString'', ''toString'', ''valueOf'', ''__proto__'', ''__defineGetter__'',
      ''__defineSetter__'', ''__lookupGetter__'', ''__lookupSetter__'']"

definition has_connection :: "peer_obj \<Rightarrow> string \<Rightarrow> bool" where
  "has_connection pr p =
     (map_of (connections pr) p \<noteq> None \<or> p \<in> set OBJECT_PROTOTYPE_NAMES)"

text \<open>
  \<^verbatim>\<open>displayUser(uid, name, picUrl, peerId)\<close>, lines 393 to 444. The element is created
  and appended when the uid has none; then the element found is mutated step by step.
  \<^verbatim>\<open>phoneBtn.setAttribute\<close> throws when the button is gone, and
  \<^verbatim>\<open>this.peer.connections\<close> throws when there is no broker peer. The table
  \<^verbatim>\<open>CALL_EVENTLISTERS\<close> is read under a uid; for a uid that has no listener in it, also
  one that is an inherited property name, \<^verbatim>\<open>removeEventListener\<close> removes nothing.
\<close>

definition displayUser ::
  "state \<Rightarrow> string \<Rightarrow> string \<Rightarrow> string option \<Rightarrow> string option \<Rightarrow> result" where
  "displayUser s uid name picUrl peerId =
    (let s1 = ensureUserDiv s uid;
         d0 = (case getUserDiv s1 uid of None \<Rightarrow> USER_TEMPLATE\<lparr>u_id := uid\<rparr> | Some d \<Rightarrow> d);
         d1 = (if truthy picUrl then d0\<lparr>u_pic := Some (css_url (dom_string picUrl))\<rparr> else d0)
                \<lparr>u_name := name\<rparr>;
         phoneBtn = u_phone d1;
         d2 = (case currentUser s of
                 None \<Rightarrow> d1
               | Some cu \<Rightarrow> if a_uid cu = uid \<and> phoneBtn \<noteq> None
                            then d1\<lparr>u_phone := None\<rparr> else d1);
         s2 = setUserDiv uid d2 s1
     in case currentUser s of
          None \<Rightarrow> Inr s2
        | Some cu \<Rightarrow>
            if a_uid cu \<noteq> uid \<and> truthy peerId then
              (case phoneBtn of
                 None \<Rightarrow> Inl (TypeError, s2)
               | Some b \<Rightarrow>
                   let p = dom_string peerId;
                       b1 = b\<lparr>p_id := Some p\<rparr>;
                       b2 = (case CALL_EVENTLISTERS s uid of
                               None \<Rightarrow> b1
                             | Some l \<Rightarrow>
                                 b1\<lparr>p_listeners := filter (\<lambda>x. fst x \<noteq> fst l) (p_listeners b1)\<rparr>)
                   in (case peer s of
                        None \<Rightarrow> Inl (TypeError, setUserDiv uid (d2\<lparr>u_phone := Some b2\<rparr>) s1)
                      | Some pr \<Rightarrow>
                          let h = (if has_connection pr p then ClickEndCall
                                   else ClickCallToUser p);
                              l = (next_listener s, h);
                              b3 = b2\<lparr>p_icon := (if has_connection pr p then ''call_end''
                                                  else ''call''),
                                      p_listeners := p_listeners b2 @ [l]\<rparr>
                          in Inr ((setUserDiv uid (d2\<lparr>u_phone := Some b3\<rparr>) s1)
                                    \<lparr>CALL_EVENTLISTERS := (CALL_EVENTLISTERS s)(uid := Some l),
                                     next_listener := Suc (next_listener s)\<rparr>)))
            else Inr s2)"

definition clearUsers :: "state \<Rightarrow> state" where
  "clearUsers s = s\<lparr>userList := []\<rparr>"

text \<open>
  The store client, which is not part of the repository, calls each listener under a
  guard: an exception of the listener is reported on the console and the delivery goes on.
\<close>

definition guarded :: "result \<Rightarrow> state" where
  "guarded r = (case r of Inl (e, s) \<Rightarrow> s\<lparr>console := console s @ [LogError]\<rparr> | Inr s \<Rightarrow> s)"

definition run_setUser :: "state \<Rightarrow> string \<times> user_val \<Rightarrow> state" where
  "run_setUser s kv =
     guarded (displayUser s (fst kv) (v_name (snd kv)) (v_photoUrl (snd kv)) (v_peerId (snd kv)))"

text \<open>
  Modelled from the spec: the store client is not part of the repository; section 2 of
  the specification gives it as the provider of ordered added, changed and removed event
  streams, and section 4.1 calls the rebuild a full resubscribe. A new
  \<^verbatim>\<open>child_added\<close> subscription is delivered one event per child the collection holds.
\<close>

fun deliver_existing :: "state \<Rightarrow> (string \<times> user_val) list \<Rightarrow> state" where
  "deliver_existing s [] = s"
| "deliver_existing s (kv # kvs) = deliver_existing (run_setUser s kv) kvs"

definition loadUsers :: "state \<Rightarrow> state" where
  "loadUsers s =
     (let s1 = s\<lparr>users_listeners := []\<rparr>;
          s2 = deliver_existing (s1\<lparr>users_listeners := [(child_added, setUser)]\<rparr>) (users_db s1)
      in s2\<lparr>users_listeners :=
               users_listeners s2 @ [(child_changed, setUser), (child_removed, unsetUser)]\<rparr>)"

definition reloadUsers :: "state \<Rightarrow> state" where
  "reloadUsers s = loadUsers (clearUsers s)"

text \<open>
  An event of the users collection: the client's copy of the collection changes, then
  every listener registered for the kind of event runs.
\<close>

datatype users_event = UserAdded string user_val | UserChanged string user_val | UserRemoved string user_val

fun event_kind :: "users_event \<Rightarrow> child_ev" where
  "event_kind (UserAdded k v) = child_added"
| "event_kind (UserChanged k v) = child_changed"
| "event_kind (UserRemoved k v) = child_removed"

fun event_data :: "users_event \<Rightarrow> string \<times> user_val" where
  "event_data (UserAdded k v) = (k, v)"
| "event_data (UserChanged k v) = (k, v)"
| "event_data (UserRemoved k v) = (k, v)"

fun apply_to_db :: "users_event \<Rightarrow> (string \<times> user_val) list \<Rightarrow> (string \<times> user_val) list" where
  "apply_to_db (UserAdded k v) db = AList.update k v db"
| "apply_to_db (UserChanged k v) db = AList.update k v db"
| "apply_to_db (UserRemoved k v) db = AList.delete k db"

fun run_users_handler :: "users_handler \<Rightarrow> state \<Rightarrow> string \<times> user_val \<Rightarrow> state" where
  "run_users_handler setUser s kv = run_setUser s kv"
| "run_users_handler unsetUser s kv = reloadUsers s"

fun run_listeners :: "(child_ev \<times> users_handler) list \<Rightarrow> users_event \<Rightarrow> state \<Rightarrow> state" where
  "run_listeners [] ev s = s"
| "run_listeners (l # ls) ev s =
     run_listeners ls ev
       (if fst l = event_kind ev then run_users_handler (snd l) s (event_data ev) else s)"

definition users_child_event :: "state \<Rightarrow> users_event \<Rightarrow> state" where
  "users_child_event s ev =
     (let s1 = s\<lparr>users_db := apply_to_db ev (users_db s)\<rparr>
      in run_listeners (users_listeners s1) ev s1)"


definition roster_uids :: "state \<Rightarrow> string list" where
  "roster_uids s = map u_id (userList s)"

definition live_uids :: "state \<Rightarrow> string set" where
  "live_uids s = fst ` set (users_db s)"


section \<open>Message feed: loadMessages, displayMessage, setImageUrl\<close>

definition LOADING_IMAGE_URL :: string where
  "LOADING_IMAGE_URL = ''https://www.google.com/images/spin-32.gif''"

definition PROFILE_PLACEHOLDER :: string where
  "PROFILE_PLACEHOLDER = ''/images/profile_placeholder.png''"

text \<open>\<^verbatim>\<open>a || b\<close> on an optional string.\<close>

definition or_default :: "string option \<Rightarrow> string \<Rightarrow> string" where
  "or_default v d = (if truthy v then dom_string v else d)"

definition MESSAGE_TEMPLATE :: "message_entry" where
  "MESSAGE_TEMPLATE = \<lparr>e_key = [], e_pic = None, e_name = [], e_body = NoBody\<rparr>"

text \<open>
  \<^verbatim>\<open>loadMessages\<close>, lines 71 to 84: the reference is set, its listeners are removed,
  and \<^verbatim>\<open>setMessage\<close> is registered on \<^verbatim>\<open>limitToLast(12)\<close> for the two kinds of
  event. A listener is recorded as the limit of its query and the kind of event.
\<close>

definition loadMessages :: "state \<Rightarrow> state" where
  "loadMessages s =
     (let s1 = s\<lparr>messagesRef := True\<rparr>;
          s2 = s1\<lparr>messages_listeners := []\<rparr>;
          s3 = s2\<lparr>messages_listeners := messages_listeners s2 @ [(12, child_added)]\<rparr>
      in s3\<lparr>messages_listeners := messages_listeners s3 @ [(12, child_changed)]\<rparr>)"

text \<open>
  Reading \<^verbatim>\<open>innerHTML\<close> after \<^verbatim>\<open>textContent = text\<close> gives the text with the
  characters of markup escaped; then every newline is replaced by \<^verbatim>\<open><br>\<close>.
\<close>

fun escape_char :: "char \<Rightarrow> string" where
  "escape_char c =
     (if c = CHR ''&'' then ''&amp;''
      else if c = CHR ''<'' then ''&lt;''
      else if c = CHR ''>'' then ''&gt;''
      else if c = CHR 0xA0 then ''&nbsp;''
      else [c])"

definition innerHTML_of_text :: "string \<Rightarrow> string" where
  "innerHTML_of_text t = concat (map escape_char t)"

fun replace_newlines :: "string \<Rightarrow> string" where
  "replace_newlines [] = []"
| "replace_newlines (c # cs) =
     (if c = CHR 0x0A then ''<br>'' @ replace_newlines cs else c # replace_newlines cs)"

definition getMessageDiv :: "state \<Rightarrow> string \<Rightarrow> message_entry option" where
  "getMessageDiv s key = find (\<lambda>e. e_key e = key) (messageList s)"

definition setMessageDiv :: "string \<Rightarrow> message_entry \<Rightarrow> state \<Rightarrow> state" where
  "setMessageDiv key d s =
     s\<lparr>messageList := upd_first (\<lambda>e. e_key e = key) (\<lambda>e. d) (messageList s)\<rparr>"

text \<open>Lines 262 to 270: the card is stamped from the template when the key has none.\<close>

definition ensureMessageDiv :: "state \<Rightarrow> string \<Rightarrow> state" where
  "ensureMessageDiv s key =
     (if getMessageDiv s key = None
      then s\<lparr>messageList := messageList s @ [MESSAGE_TEMPLATE\<lparr>e_key := key\<rparr>]\<rparr> else s)"

text \<open>
  \<^verbatim>\<open>setImageUrl(imageUri, imgElement)\<close>, lines 108 to 120. The image element is an
  index into \<open>images\<close>, which holds the \<^verbatim>\<open>src\<close> of every image created; the request
  for the metadata of a storage locator is recorded with the image it will update.
\<close>

definition setImageUrl :: "state \<Rightarrow> string \<Rightarrow> nat \<Rightarrow> state" where
  "setImageUrl s imageUri img =
     (let s1 = s\<lparr>images := (images s)[img := imageUri]\<rparr>
      in if take 5 imageUri = ''gs://''
         then s1\<lparr>images := (images s1)[img := LOADING_IMAGE_URL],
                 storage_pending := storage_pending s1 @ [(img, imageUri)]\<rparr>
         else s1\<lparr>images := (images s1)[img := imageUri]\<rparr>)"

text \<open>The continuation of \<^verbatim>\<open>getMetadata\<close>: request \<open>i\<close> resolves with a download URL.\<close>

definition getMetadata_then :: "state \<Rightarrow> nat \<Rightarrow> string \<Rightarrow> state" where
  "getMetadata_then s i url =
     (if i < length (storage_pending s)
      then s\<lparr>images := (images s)[fst (storage_pending s ! i) := url],
             storage_pending := take i (storage_pending s) @ drop (Suc i) (storage_pending s)\<rparr>
      else s)"

text \<open>\<^verbatim>\<open>displayMessage(key, name, text, picUrl, imageUri)\<close>, lines 261 to 291.\<close>

definition displayMessage ::
  "state \<Rightarrow> string \<Rightarrow> string \<Rightarrow> string option \<Rightarrow> string option \<Rightarrow> string option \<Rightarrow> state" where
  "displayMessage s key name text picUrl imageUri =
    (let s1 = ensureMessageDiv s key;
         d0 = (case getMessageDiv s1 key of None \<Rightarrow> MESSAGE_TEMPLATE\<lparr>e_key := key\<rparr> | Some d \<Rightarrow> d);
         d1 = (if truthy picUrl then d0\<lparr>e_pic := Some (css_url (dom_string picUrl))\<rparr> else d0)
                \<lparr>e_name := name\<rparr>
     in if truthy text then
          setMessageDiv key
            (d1\<lparr>e_body := Html (replace_newlines (innerHTML_of_text (dom_string text)))\<rparr>) s1
        else if truthy imageUri then
          (let img = length (images s1);
               s2 = s1\<lparr>images := images s1 @ [[]]\<rparr>;
               s3 = setImageUrl s2 (dom_string imageUri) img
           in setMessageDiv key (d1\<lparr>e_body := Image img\<rparr>) s3)
        else setMessageDiv key d1 s1)"

text \<open>An event of the messages collection runs \<^verbatim>\<open>setMessage\<close> once per listener of its kind.\<close>

fun run_message_listeners ::
  "(nat \<times> child_ev) list \<Rightarrow> child_ev \<Rightarrow> string \<Rightarrow> message_val \<Rightarrow> state \<Rightarrow> state" where
  "run_message_listeners [] k key v s = s"
| "run_message_listeners (l # ls) k key v s =
     run_message_listeners ls k key v
       (if snd l = k then displayMessage s key (m_name v) (m_text v) (m_photoUrl v) (m_imageUrl v)
        else s)"

definition messages_child_event :: "state \<Rightarrow> child_ev \<times> string \<times> message_val \<Rightarrow> state" where
  "messages_child_event s ev =
     run_message_listeners (messages_listeners s) (fst ev) (fst (snd ev)) (snd (snd ev)) s"


definition feed_keys :: "state \<Rightarrow> string list" where
  "feed_keys s = map e_key (messageList s)"

section \<open>Sending: saveMessage, saveImageMessage\<close>

definition showSnackbar :: "notification \<Rightarrow> state \<Rightarrow> state" where
  "showSnackbar n s = s\<lparr>snackbar := snackbar s @ [n]\<rparr>"

definition checkSignedInWithMessage :: "state \<Rightarrow> bool \<times> state" where
  "checkSignedInWithMessage s =
     (if currentUser s \<noteq> None then (True, s)
      else (False, showSnackbar
              \<lparr>n_message = Some ''You must sign-in first'', n_timeout = 2000, n_action = None\<rparr> s))"

definition toggleButton :: "state \<Rightarrow> state" where
  "toggleButton s = (if messageInput s \<noteq> [] then s\<lparr>submitDisabled := False\<rparr>
                     else s\<lparr>submitDisabled := True\<rparr>)"

text \<open>
  \<^verbatim>\<open>saveMessage(e)\<close>, lines 87 to 105. \<^verbatim>\<open>this.messagesRef.push\<close> throws when the
  reference was never set. The two continuations of the write follow.
\<close>

definition saveMessage :: "state \<Rightarrow> result" where
  "saveMessage s =
     (if messageInput s \<noteq> [] then
        (case checkSignedInWithMessage s of
           (ok, s1) \<Rightarrow>
             if ok then
               (case currentUser s1 of
                  None \<Rightarrow> Inl (TypeError, s1)
                | Some cu \<Rightarrow>
                    if messagesRef s1 then
                      Inr (s1\<lparr>store_writes := store_writes s1 @
                             [PushMessage \<lparr>m_name = a_displayName cu,
                                           m_text = Some (messageInput s1),
                                           m_photoUrl = Some (or_default (a_photoURL cu) PROFILE_PLACEHOLDER),
                                           m_imageUrl = None\<rparr>]\<rparr>)
                    else Inl (TypeError, s1))
             else Inr s1)
      else Inr s)"

definition saveMessage_then :: "state \<Rightarrow> state" where
  "saveMessage_then s = toggleButton (s\<lparr>messageInput := []\<rparr>)"

definition saveMessage_catch :: "state \<Rightarrow> state" where
  "saveMessage_catch s = s\<lparr>console := console s @ [LogWriteError]\<rparr>"

text \<open>\<^verbatim>\<open>file.type.match('image.*')\<close>: the type contains \<^verbatim>\<open>image\<close> somewhere.\<close>

fun contains_sub :: "string \<Rightarrow> string \<Rightarrow> bool" where
  "contains_sub pat [] = (pat = [])"
| "contains_sub pat (c # cs) = (take (length pat) (c # cs) = pat \<or> contains_sub pat cs)"

text \<open>
  \<^verbatim>\<open>saveImageMessage(event)\<close>, lines 124 to 164, up to the write of the placeholder
  message; the file chosen travels with the write, whose continuation uploads it.
  \<open>picker\<close> is the selection of the file input: \<^verbatim>\<open>files[0]\<close> is undefined when it is
  empty, and \<^verbatim>\<open>file.type\<close> then throws.
\<close>

definition saveImageMessage :: "state \<Rightarrow> result" where
  "saveImageMessage s =
     (let file = picker s;
          s1 = s\<lparr>picker := None\<rparr>
      in case file of
           None \<Rightarrow> Inl (TypeError, s1)
         | Some f \<Rightarrow>
             if \<not> contains_sub ''image'' (f_type f) then
               Inr (showSnackbar
                      \<lparr>n_message = Some ''You can only share images'', n_timeout = 2000,
                       n_action = None\<rparr> s1)
             else
               (case checkSignedInWithMessage s1 of
                  (ok, s2) \<Rightarrow>
                    if ok then
                      (case currentUser s2 of
                         None \<Rightarrow> Inl (TypeError, s2)
                       | Some cu \<Rightarrow>
                           if messagesRef s2 then
                             Inr (s2\<lparr>store_writes := store_writes s2 @
                                    [PushImageMessage
                                       \<lparr>m_name = a_displayName cu, m_text = None,
                                        m_photoUrl = Some (or_default (a_photoURL cu) PROFILE_PLACEHOLDER),
                                        m_imageUrl = Some LOADING_IMAGE_URL\<rparr> f]\<rparr>)
                           else Inl (TypeError, s2))
                    else Inr s2))"

section \<open>Broker and calls: initPeerJs, endPeerJs, saveUser, callToUser, answerCall, endCall\<close>

text \<open>\<^verbatim>\<open>saveUser\<close>, lines 337 to 350.\<close>

definition saveUser :: "state \<Rightarrow> state" where
  "saveUser s =
     (case checkSignedInWithMessage s of
        (ok, s1) \<Rightarrow>
          if ok then
            (case currentUser s1 of
               None \<Rightarrow> s1
             | Some cu \<Rightarrow>
                 s1\<lparr>store_writes := store_writes s1 @
                      [OnDisconnectRemove (a_uid cu),
                       SetUser (a_uid cu)
                         \<lparr>v_name = a_displayName cu, v_email = a_email cu,
                          v_photoUrl = Some (or_default (a_photoURL cu) PROFILE_PLACEHOLDER),
                          v_peerId = (if truthy (this_peerId s1) then this_peerId s1 else None)\<rparr>]\<rparr>)
          else s1)"

text \<open>
  \<^verbatim>\<open>initPeerJs\<close>, lines 457 to 473: a new broker peer, with no connection yet. Its four
  listeners are the functions \<open>peer_on_open\<close>, \<open>reciveCall\<close>, \<open>endPeerJs\<close> and
  \<open>peer_on_error\<close> below.
\<close>

definition initPeerJs :: "state \<Rightarrow> state" where
  "initPeerJs s =
     (case checkSignedInWithMessage s of
        (ok, s1) \<Rightarrow> if ok then s1\<lparr>peer := Some \<lparr>connections = []\<rparr>\<rparr> else s1)"

text \<open>
  \<^verbatim>\<open>endPeerJs\<close>, lines 475 to 480. What \<^verbatim>\<open>destroy\<close> does to the handles of the peer
  is the broker's business; it reaches the page, if at all, as events of those handles.
\<close>

definition endPeerJs :: "state \<Rightarrow> state" where
  "endPeerJs s = (if peer s \<noteq> None then s\<lparr>peer := None\<rparr> else s)"

definition peer_on_open :: "state \<Rightarrow> string \<Rightarrow> state" where
  "peer_on_open s pid = saveUser (s\<lparr>this_peerId := Some pid\<rparr>)"

definition peer_on_error :: "state \<Rightarrow> state" where
  "peer_on_error s = endPeerJs (s\<lparr>console := console s @ [LogError]\<rparr>)"

text \<open>
  \<^verbatim>\<open>initMeidaStream(cb)\<close>, lines 446 to 455: the request to the media device is recorded
  with its continuation. The device answers a request with a stream or with an error.
\<close>

definition initMeidaStream :: "state \<Rightarrow> media_cb \<Rightarrow> state" where
  "initMeidaStream s cb = s\<lparr>media_requests := media_requests s @ [cb]\<rparr>"

text \<open>
  \<^verbatim>\<open>endCall\<close>, lines 546 to 552. Closing a call handle marks it closed in the broker's
  table of handles, \<open>calls\<close>, where a handle is its index. A \<^verbatim>\<open>close\<close> event that the
  broker emits for the handle is an input of its own (\<open>call_emit\<close>).
\<close>

definition close_call :: "nat \<Rightarrow> call_obj list \<Rightarrow> call_obj list" where
  "close_call c cs = (if c < length cs then cs[c := (cs ! c)\<lparr>c_closed := True\<rparr>] else cs)"

definition endCall :: "state \<Rightarrow> state" where
  "endCall s =
     (case call s of
        None \<Rightarrow> s
      | Some c \<Rightarrow> reloadUsers (s\<lparr>calls := close_call c (calls s), call := None\<rparr>))"

text \<open>
  \<^verbatim>\<open>this.peer.call(peerId, stream)\<close>: the broker creates a handle for a call to the
  peer identifier, and files it in \<^verbatim>\<open>peer.connections\<close>, its table of connections keyed
  by the remote peer identifier. The broker library is not part of the repository; the
  statements below that read the table hold for every content of it.
\<close>

definition add_connection :: "string \<Rightarrow> nat \<Rightarrow> peer_obj \<Rightarrow> peer_obj" where
  "add_connection p c pr =
     pr\<lparr>connections :=
          AList.update p ((case map_of (connections pr) p of None \<Rightarrow> [] | Some cs \<Rightarrow> cs) @ [c])
            (connections pr)\<rparr>"

definition add_handler :: "nat \<Rightarrow> call_ev \<times> call_handler \<Rightarrow> call_obj list \<Rightarrow> call_obj list" where
  "add_handler c h cs =
     (if c < length cs then cs[c := (cs ! c)\<lparr>c_handlers := c_handlers (cs ! c) @ [h]\<rparr>] else cs)"

text \<open>Lines 487 to 493: a broker peer is made when there is none, and a session is ended.\<close>

definition prepare_call :: "state \<Rightarrow> state" where
  "prepare_call s =
     (let s1 = (if peer s = None then initPeerJs s else s)
      in if call s1 \<noteq> None then endCall s1 else s1)"

text \<open>
  \<^verbatim>\<open>callToUser(peerId)\<close>, lines 482 to 503. Without a media stream the call is handed
  to \<^verbatim>\<open>initMeidaStream\<close> with \<^verbatim>\<open>this.callToUser.bind(this)\<close> as continuation.
  \<^verbatim>\<open>this.peer.call\<close> throws when \<^verbatim>\<open>initPeerJs\<close> made no peer.
\<close>

definition callToUser :: "state \<Rightarrow> string option \<Rightarrow> result" where
  "callToUser s callee =
     (if mediaStream s = None then Inr (initMeidaStream s RetryCallToUser)
      else
        (let s2 = prepare_call s
         in case peer s2 of
              None \<Rightarrow> Inl (TypeError, s2)
            | Some pr \<Rightarrow>
                let c = length (calls s2);
                    s3 = s2\<lparr>calls := calls s2 @
                               [\<lparr>c_peer = callee, c_stream = mediaStream s2, c_engaged = True,
                                 c_closed = False, c_handlers = []\<rparr>],
                            peer := Some (add_connection (dom_string callee) c pr)\<rparr>;
                    s4 = s3\<lparr>call := Some c\<rparr>;
                    s5 = s4\<lparr>calls := add_handler c (ev_close, OnCloseEndCall) (calls s4)\<rparr>;
                    s6 = s5\<lparr>calls := add_handler c (ev_error, OnErrorEndCall) (calls s5)\<rparr>
                in Inr (reloadUsers s6)))"

text \<open>
  \<^verbatim>\<open>document.getElementById\<close> on the whole document: the first element in tree order
  that carries the id. In a roster entry the \<^verbatim>\<open>div\<close>, whose id is the uid, comes before
  its call button, whose id is a peer identifier.
\<close>

datatype element =
    StaticHit "error + string option \<times> string"
  | CardHit message_entry
  | EntryHit user_entry
  | ButtonHit user_entry

definition has_button :: "string \<Rightarrow> user_entry \<Rightarrow> bool" where
  "has_button p e = (case u_phone e of None \<Rightarrow> False | Some b \<Rightarrow> p_id b = Some p)"

fun getEntryOrButton :: "string \<Rightarrow> user_entry list \<Rightarrow> element option" where
  "getEntryOrButton p [] = None"
| "getEntryOrButton p (e # es) =
     (if u_id e = p then Some (EntryHit e)
      else if has_button p e then Some (ButtonHit e)
      else getEntryOrButton p es)"

fun getElementById_in ::
  "region list \<Rightarrow> message_entry list \<Rightarrow> user_entry list \<Rightarrow> string \<Rightarrow> element option" where
  "getElementById_in [] ms us p = None"
| "getElementById_in (StaticElement i f # rs) ms us p =
     (if i = p then Some (StaticHit (f ms us)) else getElementById_in rs ms us p)"
| "getElementById_in (MessagesChildren # rs) ms us p =
     (case find (\<lambda>m. e_key m = p) ms of
        Some m \<Rightarrow> Some (CardHit m)
      | None \<Rightarrow> getElementById_in rs ms us p)"
| "getElementById_in (UsersChildren # rs) ms us p =
     (case getEntryOrButton p us of
        Some x \<Rightarrow> Some x
      | None \<Rightarrow> getElementById_in rs ms us p)"

definition getElementById :: "state \<Rightarrow> string \<Rightarrow> element option" where
  "getElementById s p = getElementById_in (page s) (messageList s) (userList s) p"

text \<open>
  \<^verbatim>\<open>getUserByPeerId(peerId)\<close>, lines 505 to 514. With no element of that id,
  \<^verbatim>\<open>div.parentNode\<close> throws. The parent of a call button is its roster entry. The
  parent of a roster entry is the list \<^verbatim>\<open>#users\<close> and the parent of a message card is
  the list \<^verbatim>\<open>#messages\<close>, whose first element of class \<^verbatim>\<open>name\<close> is that of the first
  entry or card.
\<close>

definition getUserByPeerId :: "state \<Rightarrow> string \<Rightarrow> error + called_user" where
  "getUserByPeerId s p =
     (case getElementById s p of
        None \<Rightarrow> Inl TypeError
      | Some (ButtonHit e) \<Rightarrow>
          Inr \<lparr>cu_uid = Some (u_id e), cu_name = u_name e, cu_peerId = p\<rparr>
      | Some (EntryHit e) \<Rightarrow>
          (case userList s of
             [] \<Rightarrow> Inl TypeError
           | e0 # es \<Rightarrow> Inr \<lparr>cu_uid = Some ''users'', cu_name = u_name e0, cu_peerId = p\<rparr>)
      | Some (CardHit m) \<Rightarrow>
          (case messageList s of
             [] \<Rightarrow> Inl TypeError
           | m0 # ms \<Rightarrow> Inr \<lparr>cu_uid = Some ''messages'', cu_name = e_name m0, cu_peerId = p\<rparr>)
      | Some (StaticHit r) \<Rightarrow>
          (case r of
             Inl e \<Rightarrow> Inl e
           | Inr (u, n) \<Rightarrow> Inr \<lparr>cu_uid = u, cu_name = n, cu_peerId = p\<rparr>))"

text \<open>
  \<^verbatim>\<open>reciveCall(call)\<close>, lines 516 to 527. The broker delivers the handle of an inbound
  call, which it holds in \<open>calls\<close>; \<^verbatim>\<open>call.peer\<close> is the caller's peer identifier.
\<close>

definition call_peer :: "state \<Rightarrow> nat \<Rightarrow> string option" where
  "call_peer s c = (if c < length (calls s) then c_peer (calls s ! c) else None)"

definition reciveCall :: "state \<Rightarrow> nat \<Rightarrow> result" where
  "reciveCall s c =
     (case getUserByPeerId s (dom_string (call_peer s c)) of
        Inl e \<Rightarrow> Inl (e, s)
      | Inr user \<Rightarrow>
          Inr (showSnackbar
                 \<lparr>n_message = Some (''Calling From '' @ cu_name user), n_timeout = 6000,
                  n_action = Some (''Answer'', AnswerAction user c)\<rparr> s))"

text \<open>\<^verbatim>\<open>answerCall(user, call)\<close>, lines 529 to 544.\<close>

definition answer_call :: "nat \<Rightarrow> nat option \<Rightarrow> call_obj list \<Rightarrow> call_obj list" where
  "answer_call c stream cs =
     (if c < length cs then cs[c := (cs ! c)\<lparr>c_engaged := True, c_stream := stream\<rparr>] else cs)"

definition answerCall :: "state \<Rightarrow> called_user \<Rightarrow> nat \<Rightarrow> state" where
  "answerCall s user c =
     (let s1 = (if call s \<noteq> None then endCall s else s);
          s2 = s1\<lparr>call := Some c\<rparr>;
          s3 = s2\<lparr>calls := answer_call c (mediaStream s2) (calls s2)\<rparr>;
          s4 = s3\<lparr>calls := add_handler c (ev_stream, OnStream) (calls s3)\<rparr>;
          s5 = s4\<lparr>calls := add_handler c (ev_error, OnErrorEndCall) (calls s4)\<rparr>
      in reloadUsers s5)"

text \<open>
  An event of a call handle runs the listeners registered on the handle for the event, in
  the order of registration; the argument is the remote stream of a \<^verbatim>\<open>stream\<close> event.
\<close>

fun run_call_handler :: "call_handler \<Rightarrow> state \<Rightarrow> nat \<Rightarrow> state" where
  "run_call_handler OnCloseEndCall s x = endCall s"
| "run_call_handler OnErrorEndCall s x = endCall (s\<lparr>console := console s @ [LogError]\<rparr>)"
| "run_call_handler OnStream s x = s\<lparr>peerVideo := Some x\<rparr>"

fun run_call_handlers :: "(call_ev \<times> call_handler) list \<Rightarrow> call_ev \<Rightarrow> state \<Rightarrow> nat \<Rightarrow> state" where
  "run_call_handlers [] ev s x = s"
| "run_call_handlers (h # hs) ev s x =
     run_call_handlers hs ev (if fst h = ev then run_call_handler (snd h) s x else s) x"

definition call_emit :: "state \<Rightarrow> nat \<Rightarrow> call_ev \<Rightarrow> nat \<Rightarrow> state" where
  "call_emit s c ev x =
     (if c < length (calls s) then run_call_handlers (c_handlers (calls s ! c)) ev s x else s)"

text \<open>
  The answers of the media device to request \<open>i\<close>: the success callback of
  \<^verbatim>\<open>initMeidaStream\<close> stores the stream and calls \<^verbatim>\<open>cb()\<close>, with no argument; the error
  callback writes to the console.
\<close>

definition run_media_cb :: "media_cb \<Rightarrow> state \<Rightarrow> result" where
  "run_media_cb cb s =
     (case cb of
        AfterSignIn \<Rightarrow> Inr (loadUsers (saveUser (initPeerJs s)))
      | RetryCallToUser \<Rightarrow> callToUser s None)"

definition getUserMedia_success :: "state \<Rightarrow> nat \<Rightarrow> nat \<Rightarrow> result" where
  "getUserMedia_success s i stream =
     (if i < length (media_requests s) then
        run_media_cb (media_requests s ! i)
          (s\<lparr>media_requests := take i (media_requests s) @ drop (Suc i) (media_requests s),
             mediaStream := Some stream, myVideo := Some stream\<rparr>)
      else Inr s)"

definition getUserMedia_error :: "state \<Rightarrow> nat \<Rightarrow> state" where
  "getUserMedia_error s i =
     (if i < length (media_requests s) then
        s\<lparr>media_requests := take i (media_requests s) @ drop (Suc i) (media_requests s),
          console := console s @ [LogError]\<rparr>
      else s)"

section \<open>Sign-in and connection state\<close>

text \<open>
  \<^verbatim>\<open>onAuthStateChanged(user)\<close>, lines 180 to 226. The auth client has set
  \<^verbatim>\<open>auth.currentUser\<close> to the user when the listener runs.
\<close>

definition onAuthStateChanged :: "state \<Rightarrow> auth_user option \<Rightarrow> state" where
  "onAuthStateChanged s0 user =
     (let s = s0\<lparr>currentUser := user\<rparr>
      in case user of
           Some u \<Rightarrow>
             initMeidaStream
               (loadMessages
                  (s\<lparr>userPic := css_url (or_default (a_photoURL u) PROFILE_PLACEHOLDER),
                     userName := a_displayName u,
                     profileHidden := False, signInHidden := True\<rparr>))
               AfterSignIn
         | None \<Rightarrow> clearUsers (endPeerJs (s\<lparr>profileHidden := True, signInHidden := False\<rparr>)))"

text \<open>\<^verbatim>\<open>onOnlineState(snap)\<close>, lines 318 to 335.\<close>

definition onOnlineState :: "state \<Rightarrow> bool \<Rightarrow> state" where
  "onOnlineState s v =
     (let s1 =
        (if v \<and> isOnline s \<noteq> Some True then
           saveUser (initPeerJs (showSnackbar
             \<lparr>n_message = Some ''connected'', n_timeout = 2000, n_action = None\<rparr> s))
         else if \<not> v \<and> isOnline s = Some True then
           clearUsers (endPeerJs (showSnackbar
             \<lparr>n_message = Some ''disconnected'', n_timeout = 2000, n_action = None\<rparr> s))
         else s)
      in s1\<lparr>isOnline := Some v\<rparr>)"

text \<open>
  The state of a page just loaded, before any event. Its document holds the two lists;
  the static elements of the markup are put in with \<open>init_state\<lparr>page := pg\<rparr>\<close>.
\<close>

definition init_state :: state where
  "init_state =
     \<lparr>page = [MessagesChildren, UsersChildren], currentUser = None, userPic = [], userName = [], profileHidden = True,
      signInHidden = False, messageInput = [], submitDisabled = True, picker = None,
      snackbar = [], console = [], store_writes = [], messagesRef = False,
      messages_listeners = [], messageList = [], images = [], storage_pending = [],
      users_db = [], users_listeners = [], userList = [],
      CALL_EVENTLISTERS = (\<lambda>u. None), next_listener = 0, mediaStream = None,
      myVideo = None, peerVideo = None, media_requests = [], peer = None,
      this_peerId = None, calls = [], call = None, isOnline = None\<rparr>"

section \<open>Events\<close>

text \<open>
  Everything the page reacts to, and the reaction: the listeners registered in the
  constructor and in \<open>initFirebase\<close>, \<open>loadMessages\<close>, \<open>loadUsers\<close>, \<open>initPeerJs\<close>,
  \<open>initMeidaStream\<close>, \<open>callToUser\<close>, \<open>answerCall\<close>, \<open>displayUser\<close> and \<open>reciveCall\<close>.
  For an inbound call the broker first makes the handle, not yet answered, and then emits
  \<^verbatim>\<open>call\<close> with it.
\<close>

definition inbound_call :: "string \<Rightarrow> call_obj" where
  "inbound_call p = \<lparr>c_peer = Some p, c_stream = None, c_engaged = False, c_closed = False,
                      c_handlers = []\<rparr>"

datatype event =
    AuthStateChanged "auth_user option"
  | OnlineState bool
  | TypeMessage string
  | SubmitMessage
  | MessageWritten
  | MessageWriteFailed
  | PickFile "file_obj option"
  | MessagesChild child_ev string message_val
  | UsersChild users_event
  | MetadataResolved nat string
  | MediaGranted nat nat
  | MediaDenied nat
  | PeerOpen string
  | PeerCall string
  | PeerClose
  | PeerError
  | CallEvent nat call_ev nat
  | ClickCall "string option"
  | ClickEnd
  | ClickAnswer called_user nat

fun step :: "state \<Rightarrow> event \<Rightarrow> state" where
  "step s (AuthStateChanged u) = onAuthStateChanged s u"
| "step s (OnlineState v) = onOnlineState s v"
| "step s (TypeMessage t) = toggleButton (s\<lparr>messageInput := t\<rparr>)"
| "step s SubmitMessage = res_state (saveMessage s)"
| "step s MessageWritten = saveMessage_then s"
| "step s MessageWriteFailed = saveMessage_catch s"
| "step s (PickFile f) = res_state (saveImageMessage (s\<lparr>picker := f\<rparr>))"
| "step s (MessagesChild k key v) = messages_child_event s (k, key, v)"
| "step s (UsersChild ev) = users_child_event s ev"
| "step s (MetadataResolved i url) = getMetadata_then s i url"
| "step s (MediaGranted i stream) = res_state (getUserMedia_success s i stream)"
| "step s (MediaDenied i) = getUserMedia_error s i"
| "step s (PeerOpen p) = peer_on_open s p"
| "step s (PeerCall p) =
     res_state (reciveCall (s\<lparr>calls := calls s @ [inbound_call p]\<rparr>) (length (calls s)))"
| "step s PeerClose = endPeerJs s"
| "step s PeerError = peer_on_error s"
| "step s (CallEvent c ev x) = call_emit s c ev x"
| "step s (ClickCall callee) = res_state (callToUser s callee)"
| "step s ClickEnd = endCall s"
| "step s (ClickAnswer user c) = answerCall s user c"

fun run :: "state \<Rightarrow> event list \<Rightarrow> state" where
  "run s [] = s"
| "run s (e # es) = run (step s e) es"

section \<open>Concrete states and derived notions used in the statements\<close>

text \<open>A peer identifier is rendered when some roster entry carries a call button with it as id.\<close>

definition peer_rendered :: "state \<Rightarrow> string \<Rightarrow> bool" where
  "peer_rendered s p = list_ex (has_button p) (userList s)"

text \<open>The ids of the static elements of a document.\<close>

fun static_ids :: "region list \<Rightarrow> string list" where
  "static_ids [] = []"
| "static_ids (StaticElement i f # rs) = i # static_ids rs"
| "static_ids (MessagesChildren # rs) = static_ids rs"
| "static_ids (UsersChildren # rs) = static_ids rs"

text \<open>A page on which the broker holds one inbound call from \<^verbatim>\<open>p1\<close>, and nobody is rendered.\<close>

definition inbound_state :: state where
  "inbound_state =
     init_state\<lparr>calls := [\<lparr>c_peer = Some ''p1'', c_stream = None, c_engaged = False,
                            c_closed = False, c_handlers = []\<rparr>]\<rparr>"

text \<open>The same, with the caller rendered as \<^verbatim>\<open>alice\<close>.\<close>

definition alice_entry :: user_entry where
  "alice_entry =
     \<lparr>u_id = ''alice'', u_pic = None, u_name = ''Alice'',
      u_phone = Some \<lparr>p_id = Some ''p1'', p_icon = ''call'',
                       p_listeners = [(0, ClickCallToUser ''p1'')]\<rparr>\<rparr>"

definition inbound_rendered_state :: state where
  "inbound_rendered_state = inbound_state\<lparr>userList := [alice_entry]\<rparr>"

text \<open>Alice is rendered, and the broker holds an inbound call whose caller took the peer
  identifier \<^verbatim>\<open>alice\<close>, which is Alice's uid and nobody's peer identifier.\<close>

definition name_clash_state :: state where
  "name_clash_state =
     init_state\<lparr>userList := [alice_entry],
                 calls := [\<lparr>c_peer = Some ''alice'', c_stream = None, c_engaged = False,
                            c_closed = False, c_handlers = []\<rparr>]\<rparr>"



text \<open>
  A change that touches nothing but the roster, its click listeners, the registration of
  the users listeners and the console: the footprint of \<open>displayUser\<close>, \<open>loadUsers\<close> and
  \<open>reloadUsers\<close>.
\<close>

definition roster_frame :: "state \<Rightarrow> state \<Rightarrow> bool" where
  "roster_frame s s' =
     (\<exists>co li ul ce nl. s' = s\<lparr>console := co, users_listeners := li, userList := ul,
                                 CALL_EVENTLISTERS := ce, next_listener := nl\<rparr>)"

text \<open>The element \<open>displayUser\<close> works on: the one found, or the fresh copy of the template.\<close>

definition div_before :: "state \<Rightarrow> string \<Rightarrow> user_entry" where
  "div_before s uid = (case getUserDiv s uid of None \<Rightarrow> USER_TEMPLATE\<lparr>u_id := uid\<rparr> | Some d \<Rightarrow> d)"

text \<open>The call button of a remote user after lines 416 to 439 ran on button \<open>b\<close>.\<close>

definition phone_after :: "state \<Rightarrow> string \<Rightarrow> string \<Rightarrow> peer_obj \<Rightarrow> phone_btn \<Rightarrow> phone_btn" where
  "phone_after s uid p pr b =
     \<lparr>p_id = Some p,
      p_icon = (if has_connection pr p then ''call_end'' else ''call''),
      p_listeners =
        (case CALL_EVENTLISTERS s uid of
           None \<Rightarrow> p_listeners b
         | Some l \<Rightarrow> filter (\<lambda>x. fst x \<noteq> fst l) (p_listeners b)) @
        [(next_listener s, if has_connection pr p then ClickEndCall else ClickCallToUser p)]\<rparr>"


text \<open>Bob is signed in, with a media stream and a broker peer; nobody is rendered.\<close>

definition bob :: auth_user where
  "bob = \<lparr>a_uid = ''bob'', a_displayName = ''Bob'', a_email = ''bob@example.org'', a_photoURL = None\<rparr>"

definition signed_in_state :: state where
  "signed_in_state =
     init_state\<lparr>currentUser := Some bob, messagesRef := True, mediaStream := Some 0,
                 myVideo := Some 0, peer := Some \<lparr>connections = []\<rparr>\<rparr>"



text \<open>
  A call handle is a live session when the application placed or answered it and it was
  not closed. \<open>single_session\<close>: every live session is the one held in \<^verbatim>\<open>this.call\<close>.
\<close>

definition live_call :: "call_obj \<Rightarrow> bool" where
  "live_call c = (c_engaged c \<and> \<not> c_closed c)"

definition live_sessions :: "state \<Rightarrow> nat list" where
  "live_sessions s = filter (\<lambda>i. live_call (calls s ! i)) [0..<length (calls s)]"

definition single_session :: "state \<Rightarrow> bool" where
  "single_session s = list_all (\<lambda>i. call s = Some i) (live_sessions s)"

text \<open>The broker's handles once \<open>endCall\<close> ran: the session held, if any, is closed.\<close>


definition closed_prior :: "state \<Rightarrow> call_obj list" where
  "closed_prior s = (case call s of None \<Rightarrow> calls s | Some c \<Rightarrow> close_call c (calls s))"

text \<open>The handle \<open>callToUser\<close> leaves for its call, with the two listeners of lines 496 to 500.\<close>

definition new_call :: "string option \<Rightarrow> nat option \<Rightarrow> call_obj" where
  "new_call callee st =
     \<lparr>c_peer = callee, c_stream = st, c_engaged = True, c_closed = False,
      c_handlers = [(ev_close, OnCloseEndCall), (ev_error, OnErrorEndCall)]\<rparr>"

text \<open>Who \<open>getUserByPeerId\<close> found for the offer from \<^verbatim>\<open>p2\<close>.\<close>

definition alice_user :: called_user where
  "alice_user = \<lparr>cu_uid = Some ''alice'', cu_name = ''Alice'', cu_peerId = ''p2''\<rparr>"

text \<open>Bob is in a call to \<^verbatim>\<open>p1\<close> and has an offer from \<^verbatim>\<open>p2\<close>.\<close>

definition busy_state :: state where
  "busy_state =
     signed_in_state\<lparr>peer := Some \<lparr>connections = [(''p1'', [0])]\<rparr>,
                      calls := [new_call (Some ''p1'') (Some 0), inbound_call ''p2''],
                      call := Some 0\<rparr>"

text \<open>Bob is idle and has an offer from \<^verbatim>\<open>p2\<close>.\<close>

definition offered_state :: state where
  "offered_state = signed_in_state\<lparr>calls := [inbound_call ''p2'']\<rparr>"

text \<open>Bob is signed in with a broker peer, and the media stream is not there yet.\<close>

definition no_media_state :: state where
  "no_media_state = signed_in_state\<lparr>mediaStream := None, myVideo := None\<rparr>"

definition text_file :: file_obj where
  "text_file = \<lparr>f_name = ''notes.txt'', f_type = ''text/plain''\<rparr>"

section \<open>Lists and lookups\<close>



lemma find_Some_P: "find P xs = Some x \<Longrightarrow> P x"
  by (induction xs) (auto split: if_splits)

lemma find_Some_set: "find P xs = Some x \<Longrightarrow> x \<in> set xs"
  by (induction xs) (auto split: if_splits)

lemma find_Some_list_ex: "find P xs = Some x \<Longrightarrow> list_ex P xs"
  by (induction xs) (auto split: if_splits)

lemma find_None_list_ex: "find P xs = None \<Longrightarrow> \<not> list_ex P xs"
  by (induction xs) (auto split: if_splits)


lemma find_key_None: "(find (\<lambda>e. g e = k) xs = None) = (k \<notin> set (map g xs))"
  by (induction xs) auto

lemma find_append_new:
  "find P xs = None \<Longrightarrow> P d \<Longrightarrow> find P (xs @ [d]) = Some d"
  by (induction xs) (auto split: if_splits)

section \<open>Receiving a call\<close>

lemma getEntryOrButton_None:
  "p \<notin> set (map u_id us) \<Longrightarrow> \<not> list_ex (has_button p) us \<Longrightarrow> getEntryOrButton p us = None"
  by (induction us) auto

lemma getEntryOrButton_button:
  "p \<notin> set (map u_id us) \<Longrightarrow> list_ex (has_button p) us \<Longrightarrow>
   \<exists>e \<in> set us. has_button p e \<and> getEntryOrButton p us = Some (ButtonHit e)"
  by (induction us) auto

lemma getElementById_in_None:
  "p \<notin> set (static_ids rs) \<Longrightarrow> find (\<lambda>m. e_key m = p) ms = None \<Longrightarrow>
   getEntryOrButton p us = None \<Longrightarrow> getElementById_in rs ms us p = None"
  by (induction rs ms us p rule: getElementById_in.induct) auto

lemma getElementById_in_users:
  "p \<notin> set (static_ids rs) \<Longrightarrow> find (\<lambda>m. e_key m = p) ms = None \<Longrightarrow>
   getEntryOrButton p us = Some x \<Longrightarrow> UsersChildren \<in> set rs \<Longrightarrow>
   getElementById_in rs ms us p = Some x"
  by (induction rs ms us p rule: getElementById_in.induct) auto

text \<open>
  C10, as amended. Take an inbound call whose peer identifier is the id of no static
  element, no message card and no roster entry. When it is the id of no rendered call
  button either, no element of the document carries it: \<open>reciveCall\<close> throws a TypeError
  and leaves the state as it was, so no notification is shown. When a rendered call
  button carries it (and the document holds the roster), the notification
  \<^verbatim>\<open>Calling From <name>\<close> with a 6000 ms lifetime and the action \<^verbatim>\<open>Answer\<close> is shown,
  for a roster entry whose button has that id.
\<close>

theorem reciveCall_needs_rendered_caller:
  assumes "c < length (calls s)" and "c_peer (calls s ! c) = Some p"
    and "p \<notin> set (static_ids (page s))" and "p \<notin> set (feed_keys s)"
    and "p \<notin> set (roster_uids s)"
  shows "(\<not> peer_rendered s p \<longrightarrow> reciveCall s c = Inl (TypeError, s)) \<and>
         (peer_rendered s p \<and> UsersChildren \<in> set (page s) \<longrightarrow>
            (\<exists>e \<in> set (userList s).
               (\<exists>b. u_phone e = Some b \<and> p_id b = Some p) \<and>
               reciveCall s c =
                 Inr (s\<lparr>snackbar := snackbar s @
                        [\<lparr>n_message = Some (''Calling From '' @ u_name e), n_timeout = 6000,
                          n_action = Some (''Answer'',
                            AnswerAction \<lparr>cu_uid = Some (u_id e), cu_name = u_name e,
                                          cu_peerId = p\<rparr> c)\<rparr>]\<rparr>)))"
proof (intro conjI impI)
  have keys: "find (\<lambda>m. e_key m = p) (messageList s) = None"
    using assms(4) by (simp add: feed_keys_def find_key_None)
  have uids: "p \<notin> set (map u_id (userList s))"
    using assms(5) by (simp add: roster_uids_def)
  {
    assume "\<not> peer_rendered s p"
    then have "getEntryOrButton p (userList s) = None"
      using uids by (simp add: peer_rendered_def getEntryOrButton_None)
    then have "getElementById s p = None"
      unfolding getElementById_def using assms(3) keys by (rule getElementById_in_None [rotated 2])
    then show "reciveCall s c = Inl (TypeError, s)"
      using assms(1,2) by (simp add: reciveCall_def getUserByPeerId_def call_peer_def)
  }
  {
    assume h: "peer_rendered s p \<and> UsersChildren \<in> set (page s)"
    then obtain e where e: "e \<in> set (userList s)" "has_button p e"
      "getEntryOrButton p (userList s) = Some (ButtonHit e)"
      using getEntryOrButton_button [OF uids] by (auto simp: peer_rendered_def)
    have "getElementById s p = Some (ButtonHit e)"
      unfolding getElementById_def
      using getElementById_in_users [OF assms(3) keys e(3)] h by simp
    then have "reciveCall s c =
        Inr (s\<lparr>snackbar := snackbar s @
               [\<lparr>n_message = Some (''Calling From '' @ u_name e), n_timeout = 6000,
                 n_action = Some (''Answer'',
                   AnswerAction \<lparr>cu_uid = Some (u_id e), cu_name = u_name e,
                                 cu_peerId = p\<rparr> c)\<rparr>]\<rparr>)"
      using assms(1,2)
      by (simp add: reciveCall_def getUserByPeerId_def call_peer_def showSnackbar_def)
    moreover have "\<exists>b. u_phone e = Some b \<and> p_id b = Some p"
      using e(2) by (cases "u_phone e") (simp_all add: has_button_def)
    ultimately show "\<exists>e \<in> set (userList s).
               (\<exists>b. u_phone e = Some b \<and> p_id b = Some p) \<and>
               reciveCall s c =
                 Inr (s\<lparr>snackbar := snackbar s @
                        [\<lparr>n_message = Some (''Calling From '' @ u_name e), n_timeout = 6000,
                          n_action = Some (''Answer'',
                            AnswerAction \<lparr>cu_uid = Some (u_id e), cu_name = u_name e,
                                          cu_peerId = p\<rparr> c)\<rparr>]\<rparr>)"
      using e(1) by blast
  }
qed

theorem reciveCall_needs_rendered_caller_witness:
  "reciveCall inbound_state 0 = Inl (TypeError, inbound_state) \<and>
   threw (reciveCall inbound_state 0) \<and>
   \<not> threw (reciveCall inbound_rendered_state 0) \<and>
   map n_message (snackbar (res_state (reciveCall inbound_rendered_state 0))) =
     [Some ''Calling From Alice'']"
  using reciveCall_needs_rendered_caller [of 0 inbound_state "''p1''"]
    reciveCall_needs_rendered_caller [of 0 inbound_rendered_state "''p1''"]
  by (simp add: inbound_state_def inbound_rendered_state_def alice_entry_def init_state_def
      peer_rendered_def has_button_def feed_keys_def roster_uids_def threw_def res_state_def)

text \<open>
  The claim as stated fails: a peer identifier that no rendered roster entry has as peer
  identifier need not make the lookup fail. The caller here took Alice's uid as peer
  identifier, the lookup finds Alice's roster entry, and an offer is shown, made from
  the parent of that entry, the list \<^verbatim>\<open>#users\<close>.
\<close>

theorem caller_with_uid_as_peerId_counterexample:
  "\<not> peer_rendered name_clash_state ''alice'' \<and>
   reciveCall name_clash_state 0 =
     Inr (name_clash_state\<lparr>snackbar :=
       [\<lparr>n_message = Some ''Calling From Alice'', n_timeout = 6000,
         n_action = Some (''Answer'',
           AnswerAction \<lparr>cu_uid = Some ''users'', cu_name = ''Alice'', cu_peerId = ''alice''\<rparr> 0)\<rparr>]\<rparr>)"
  by (simp add: name_clash_state_def alice_entry_def init_state_def peer_rendered_def
      has_button_def reciveCall_def getUserByPeerId_def getElementById_def call_peer_def
      showSnackbar_def)

section \<open>Message feed\<close>




lemma ensureMessageDiv_frame [simp]:
  "images (ensureMessageDiv s key) = images s"
  "storage_pending (ensureMessageDiv s key) = storage_pending s"
  by (simp_all add: ensureMessageDiv_def)




lemma setMessageDiv_frame [simp]:
  "images (setMessageDiv key d s) = images s"
  "storage_pending (setMessageDiv key d s) = storage_pending s"
  by (simp_all add: setMessageDiv_def)

lemma setImageUrl_frame [simp]:
  "messageList (setImageUrl s u i) = messageList s"
  by (simp add: setImageUrl_def Let_def)

lemma getMessageDiv_frame [simp]:
  "getMessageDiv (setImageUrl s u i) key = getMessageDiv s key"
  "getMessageDiv (s\<lparr>images := im\<rparr>) key = getMessageDiv s key"
  by (simp_all add: getMessageDiv_def)







lemma loadMessages_feed [simp]: "feed_keys (loadMessages s) = feed_keys s"
  by (simp add: loadMessages_def feed_keys_def Let_def)












section \<open>Roster\<close>

lemma roster_frameI:
  "s' = s\<lparr>console := console s', users_listeners := users_listeners s', userList := userList s',
          CALL_EVENTLISTERS := CALL_EVENTLISTERS s', next_listener := next_listener s'\<rparr>
   \<Longrightarrow> roster_frame s s'"
  unfolding roster_frame_def by blast

lemma roster_frame_refl [simp]: "roster_frame s s"
  by (rule roster_frameI) simp

lemma roster_frame_trans: "roster_frame s s' \<Longrightarrow> roster_frame s' s'' \<Longrightarrow> roster_frame s s''"
  unfolding roster_frame_def by (elim exE, hypsubst, intro roster_frameI [unfolded roster_frame_def]) simp

lemma roster_frame_fields:
  assumes "roster_frame s s'"
  shows "calls s' = calls s" "call s' = call s" "peer s' = peer s"
    "mediaStream s' = mediaStream s" "media_requests s' = media_requests s"
    "currentUser s' = currentUser s" "snackbar s' = snackbar s"
    "store_writes s' = store_writes s" "users_db s' = users_db s"
    "messageList s' = messageList s" "this_peerId s' = this_peerId s"
    "images s' = images s" "storage_pending s' = storage_pending s"
    "myVideo s' = myVideo s" "peerVideo s' = peerVideo s"
  using assms unfolding roster_frame_def by auto

lemma ensureUserDiv_found:
  "\<exists>d. getUserDiv (ensureUserDiv s uid) uid = Some d \<and> u_id d = uid"
proof (cases "getUserDiv s uid")
  case None
  then show ?thesis
    by (simp add: ensureUserDiv_def getUserDiv_def find_append_new)
next
  case (Some d)
  then show ?thesis
    by (auto simp: ensureUserDiv_def getUserDiv_def dest: find_Some_P)
qed

lemma ensureUserDiv_div:
  "getUserDiv (ensureUserDiv s uid) uid = Some (div_before s uid)"
proof (cases "getUserDiv s uid")
  case None
  then show ?thesis
    by (simp add: ensureUserDiv_def getUserDiv_def find_append_new div_before_def)
next
  case (Some d)
  then show ?thesis
    by (simp add: ensureUserDiv_def div_before_def)
qed

lemma div_before_id [simp]: "u_id (div_before s uid) = uid"
  using ensureUserDiv_found [of s uid] by (simp add: ensureUserDiv_div)




lemma roster_uids_upd [simp]:
  "roster_uids (s\<lparr>CALL_EVENTLISTERS := ce\<rparr>) = roster_uids s"
  "roster_uids (s\<lparr>next_listener := nl\<rparr>) = roster_uids s"
  "roster_uids (s\<lparr>console := co\<rparr>) = roster_uids s"
  "roster_uids (s\<lparr>users_listeners := li\<rparr>) = roster_uids s"
  "roster_uids (s\<lparr>users_db := db\<rparr>) = roster_uids s"
  by (simp_all add: roster_uids_def)

lemma getUserDiv_upd [simp]:
  "getUserDiv (s\<lparr>CALL_EVENTLISTERS := ce\<rparr>) uid = getUserDiv s uid"
  "getUserDiv (s\<lparr>next_listener := nl\<rparr>) uid = getUserDiv s uid"
  by (simp_all add: getUserDiv_def)

text \<open>\<open>displayUser\<close>, once the element of the uid is known.\<close>

lemma displayUser_signed_out:
  "currentUser s = None \<Longrightarrow>
   displayUser s uid n pic pid =
     Inr (setUserDiv uid
           ((if truthy pic then (div_before s uid)\<lparr>u_pic := Some (css_url (dom_string pic))\<rparr>
             else div_before s uid)\<lparr>u_name := n\<rparr>) (ensureUserDiv s uid))"
  by (simp add: displayUser_def Let_def ensureUserDiv_div)

lemma phone_gone: "u_phone d = None \<Longrightarrow> d\<lparr>u_phone := None\<rparr> = (d :: user_entry)"
  by (cases d) simp

lemma displayUser_local:
  assumes "currentUser s = Some cu" and "a_uid cu = uid"
  shows "displayUser s uid n pic pid =
     Inr (setUserDiv uid
           ((if truthy pic then (div_before s uid)\<lparr>u_pic := Some (css_url (dom_string pic))\<rparr>
             else div_before s uid)\<lparr>u_name := n, u_phone := None\<rparr>) (ensureUserDiv s uid))"
proof (cases "u_phone (div_before s uid)")
  case None
  then show ?thesis
    using assms by (simp add: displayUser_def Let_def ensureUserDiv_div phone_gone)
next
  case (Some b)
  then show ?thesis
    using assms by (simp add: displayUser_def Let_def ensureUserDiv_div)
qed

lemma displayUser_remote_no_peerId:
  "currentUser s = Some cu \<Longrightarrow> a_uid cu \<noteq> uid \<Longrightarrow> \<not> truthy pid \<Longrightarrow>
   displayUser s uid n pic pid =
     Inr (setUserDiv uid
           ((if truthy pic then (div_before s uid)\<lparr>u_pic := Some (css_url (dom_string pic))\<rparr>
             else div_before s uid)\<lparr>u_name := n\<rparr>) (ensureUserDiv s uid))"
  by (simp add: displayUser_def Let_def ensureUserDiv_div)

lemma displayUser_remote_no_button:
  "currentUser s = Some cu \<Longrightarrow> a_uid cu \<noteq> uid \<Longrightarrow> truthy pid \<Longrightarrow>
   u_phone (div_before s uid) = None \<Longrightarrow>
   displayUser s uid n pic pid =
     Inl (TypeError, setUserDiv uid
           ((if truthy pic then (div_before s uid)\<lparr>u_pic := Some (css_url (dom_string pic))\<rparr>
             else div_before s uid)\<lparr>u_name := n\<rparr>) (ensureUserDiv s uid))"
  by (simp add: displayUser_def Let_def ensureUserDiv_div)

lemma displayUser_remote_no_peer:
  "currentUser s = Some cu \<Longrightarrow> a_uid cu \<noteq> uid \<Longrightarrow> truthy pid \<Longrightarrow>
   u_phone (div_before s uid) = Some b \<Longrightarrow> peer s = None \<Longrightarrow>
   displayUser s uid n pic pid =
     Inl (TypeError, setUserDiv uid
           ((if truthy pic then (div_before s uid)\<lparr>u_pic := Some (css_url (dom_string pic))\<rparr>
             else div_before s uid)
              \<lparr>u_name := n,
               u_phone := Some (case CALL_EVENTLISTERS s uid of
                   None \<Rightarrow> b\<lparr>p_id := Some (dom_string pid)\<rparr>
                 | Some l \<Rightarrow> b\<lparr>p_id := Some (dom_string pid),
                               p_listeners := filter (\<lambda>x. fst x \<noteq> fst l) (p_listeners b)\<rparr>)\<rparr>)
           (ensureUserDiv s uid))"
  by (cases "CALL_EVENTLISTERS s uid") (simp_all add: displayUser_def Let_def ensureUserDiv_div)

lemma displayUser_remote:
  "currentUser s = Some cu \<Longrightarrow> a_uid cu \<noteq> uid \<Longrightarrow> truthy pid \<Longrightarrow>
   u_phone (div_before s uid) = Some b \<Longrightarrow> peer s = Some pr \<Longrightarrow>
   displayUser s uid n pic pid =
     Inr ((setUserDiv uid
            ((if truthy pic then (div_before s uid)\<lparr>u_pic := Some (css_url (dom_string pic))\<rparr>
              else div_before s uid)
               \<lparr>u_name := n, u_phone := Some (phone_after s uid (dom_string pid) pr b)\<rparr>)
            (ensureUserDiv s uid))
           \<lparr>CALL_EVENTLISTERS :=
              (CALL_EVENTLISTERS s)
                (uid := Some (next_listener s,
                   if has_connection pr (dom_string pid) then ClickEndCall
                   else ClickCallToUser (dom_string pid))),
            next_listener := Suc (next_listener s)\<rparr>)"
  by (cases "CALL_EVENTLISTERS s uid"; cases b)
     (simp_all add: displayUser_def Let_def ensureUserDiv_div phone_after_def)

text \<open>Every outcome writes one element with the uid as id back into the roster.\<close>

lemma displayUser_shape:
  "\<exists>d ce nl. u_id d = uid \<and>
     res_state (displayUser s uid n pic pid) =
       (setUserDiv uid d (ensureUserDiv s uid))\<lparr>CALL_EVENTLISTERS := ce, next_listener := nl\<rparr>"
proof -
  have triv: "\<And>d :: user_entry. u_id d = uid \<Longrightarrow> \<exists>d' ce nl. u_id d' = uid \<and>
      setUserDiv uid d (ensureUserDiv s uid) =
        (setUserDiv uid d' (ensureUserDiv s uid))\<lparr>CALL_EVENTLISTERS := ce, next_listener := nl\<rparr>"
  proof -
    fix d :: user_entry assume "u_id d = uid"
    then have "u_id d = uid \<and> setUserDiv uid d (ensureUserDiv s uid) =
        (setUserDiv uid d (ensureUserDiv s uid))
          \<lparr>CALL_EVENTLISTERS := CALL_EVENTLISTERS (setUserDiv uid d (ensureUserDiv s uid)),
           next_listener := next_listener (setUserDiv uid d (ensureUserDiv s uid))\<rparr>"
      by simp
    then show "\<exists>d' ce nl. u_id d' = uid \<and>
      setUserDiv uid d (ensureUserDiv s uid) =
        (setUserDiv uid d' (ensureUserDiv s uid))\<lparr>CALL_EVENTLISTERS := ce, next_listener := nl\<rparr>"
      by blast
  qed
  show ?thesis
  proof (cases "currentUser s")
    case None
    show ?thesis
      unfolding displayUser_signed_out [OF None] res_state_def
        by (simp only: sum.case prod.case) (rule triv, simp)
  next
    case (Some cu)
    show ?thesis
    proof (cases "a_uid cu = uid")
      case True
      show ?thesis
        unfolding displayUser_local [OF Some True] res_state_def
        by (simp only: sum.case prod.case) (rule triv, simp)
    next
      case remote: False
      show ?thesis
      proof (cases "truthy pid")
        case False
        show ?thesis
          unfolding displayUser_remote_no_peerId [OF Some remote False] res_state_def
          by (simp only: sum.case prod.case) (rule triv, simp)
      next
        case True
        show ?thesis
        proof (cases "u_phone (div_before s uid)")
          case None
          show ?thesis
            unfolding displayUser_remote_no_button [OF Some remote True None] res_state_def
            by (simp only: sum.case prod.case) (rule triv, simp)
        next
          case btn: (Some b)
          show ?thesis
          proof (cases "peer s")
            case None
            show ?thesis
              unfolding displayUser_remote_no_peer [OF Some remote True btn None] res_state_def
              by (simp only: sum.case prod.case) (rule triv, simp)
          next
            case (Some pr)
            show ?thesis
              unfolding displayUser_remote [OF \<open>currentUser s = Some cu\<close> remote True btn Some]
                res_state_def
              by (simp only: sum.case prod.case) (intro exI conjI, rule_tac [2] refl, simp)
          qed
        qed
      qed
    qed
  qed
qed


lemma displayUser_frame: "roster_frame s (res_state (displayUser s uid n pic pid))"
proof -
  obtain d ce nl where "u_id d = uid"
    "res_state (displayUser s uid n pic pid) =
       (setUserDiv uid d (ensureUserDiv s uid))\<lparr>CALL_EVENTLISTERS := ce, next_listener := nl\<rparr>"
    using displayUser_shape by blast
  then show ?thesis
    by (auto simp: setUserDiv_def ensureUserDiv_def intro!: roster_frameI)
qed

lemma guarded_frame: "roster_frame s (res_state r) \<Longrightarrow> roster_frame s (guarded r)"
  unfolding roster_frame_def guarded_def res_state_def
  by (auto split: sum.splits intro!: roster_frameI [unfolded roster_frame_def])




lemma run_setUser_frame: "roster_frame s (run_setUser s kv)"
  unfolding run_setUser_def by (rule guarded_frame) (rule displayUser_frame)



lemma deliver_existing_frame: "roster_frame s (deliver_existing s kvs)"
proof (induction kvs arbitrary: s)
  case Nil
  show ?case by simp
next
  case (Cons kv kvs)
  show ?case
    using roster_frame_trans [OF run_setUser_frame Cons.IH] by simp
qed




lemma loadUsers_frame: "roster_frame s (loadUsers s)"
proof -
  have a: "roster_frame s (s\<lparr>users_listeners := [], users_listeners := [(child_added, setUser)]\<rparr>)"
    by (rule roster_frameI) simp
  have b: "\<And>x li. roster_frame x (x\<lparr>users_listeners := li\<rparr>)"
    by (rule roster_frameI) simp
  show ?thesis
    unfolding loadUsers_def Let_def
    by (rule roster_frame_trans [OF roster_frame_trans [OF a deliver_existing_frame] b])
qed




lemma reloadUsers_frame: "roster_frame s (reloadUsers s)"
proof -
  have "roster_frame s (clearUsers s)"
    unfolding clearUsers_def by (rule roster_frameI) simp
  then show ?thesis
    unfolding reloadUsers_def using loadUsers_frame roster_frame_trans by blast
qed


lemma clearUsers_simps [simp]:
  "roster_uids (clearUsers s) = []"
  "live_uids (clearUsers s) = live_uids s"
  "users_db (clearUsers s) = users_db s"
  by (simp_all add: clearUsers_def roster_uids_def live_uids_def)









lemma setUserDiv_simps [simp]:
  "getUserDiv ((setUserDiv uid d s)\<lparr>CALL_EVENTLISTERS := ce, next_listener := nl\<rparr>) uid' =
     getUserDiv (setUserDiv uid d s) uid'"
  by (simp add: getUserDiv_def)










section \<open>Sending\<close>

text \<open>
  C8, as amended. Submitting an empty message does nothing at all: no notification, no
  write. Selecting a file whose type does not contain \<^verbatim>\<open>image\<close> shows the
  notification \<^verbatim>\<open>You can only share images\<close> for 2000 ms and writes nothing to the
  store; besides the notification, the selection of the file input is cleared.
\<close>

theorem validation_failures_leave_store_alone:
  "(messageInput s = [] \<longrightarrow> saveMessage s = Inr s) \<and>
   (picker s = Some f \<and> \<not> contains_sub ''image'' (f_type f) \<longrightarrow>
      saveImageMessage s =
        Inr (s\<lparr>picker := None,
               snackbar := snackbar s @
                 [\<lparr>n_message = Some ''You can only share images'', n_timeout = 2000,
                   n_action = None\<rparr>]\<rparr>) \<and>
      store_writes (res_state (saveImageMessage s)) = store_writes s)"
  by (auto simp: saveMessage_def saveImageMessage_def Let_def showSnackbar_def res_state_def)

theorem validation_failures_leave_store_alone_witness:
  "saveMessage signed_in_state = Inr signed_in_state \<and>
   map n_message (snackbar (res_state (saveImageMessage (signed_in_state\<lparr>picker := Some text_file\<rparr>)))) =
     [Some ''You can only share images''] \<and>
   store_writes (res_state (saveImageMessage (signed_in_state\<lparr>picker := Some text_file\<rparr>))) = []"
  using validation_failures_leave_store_alone [where s = signed_in_state]
    validation_failures_leave_store_alone
      [where s = "signed_in_state\<lparr>picker := Some text_file\<rparr>" and f = text_file]
  by (simp add: signed_in_state_def init_state_def text_file_def res_state_def)

text \<open>
  The claim as stated fails twice: an empty message is not reported, and a rejected file
  changes the state of the file input.
\<close>

theorem empty_message_not_reported_counterexample:
  "messageInput signed_in_state = [] \<and>
   snackbar (res_state (saveMessage signed_in_state)) = [] \<and>
   picker (signed_in_state\<lparr>picker := Some text_file\<rparr>) = Some text_file \<and>
   picker (res_state (saveImageMessage (signed_in_state\<lparr>picker := Some text_file\<rparr>))) = None"
  by (simp add: saveMessage_def saveImageMessage_def Let_def showSnackbar_def res_state_def
      signed_in_state_def init_state_def text_file_def)

section \<open>Calls\<close>

lemmas reload_fields = roster_frame_fields [OF reloadUsers_frame]

lemma endCall_fields:
  "calls (endCall s) = closed_prior s" "call (endCall s) = None" "peer (endCall s) = peer s"
  "mediaStream (endCall s) = mediaStream s" "media_requests (endCall s) = media_requests s"
  "currentUser (endCall s) = currentUser s" "snackbar (endCall s) = snackbar s"
  by (simp_all add: endCall_def closed_prior_def reload_fields split: option.splits)

lemma initPeerJs_fields:
  "calls (initPeerJs s) = calls s" "call (initPeerJs s) = call s"
  "mediaStream (initPeerJs s) = mediaStream s" "media_requests (initPeerJs s) = media_requests s"
  "currentUser (initPeerJs s) = currentUser s"
  "peer (initPeerJs s) = (if currentUser s \<noteq> None then Some \<lparr>connections = []\<rparr> else peer s)"
  by (simp_all add: initPeerJs_def checkSignedInWithMessage_def showSnackbar_def)

lemma length_close_call [simp]: "length (close_call c cs) = length cs"
  by (simp add: close_call_def)

lemma length_add_handler [simp]: "length (add_handler c h cs) = length cs"
  by (simp add: add_handler_def)

lemma length_answer_call [simp]: "length (answer_call c st cs) = length cs"
  by (simp add: answer_call_def)

lemma length_closed_prior [simp]: "length (closed_prior s) = length (calls s)"
  by (simp add: closed_prior_def split: option.splits)

lemma closed_prior_upd [simp]:
  "closed_prior (s\<lparr>peer := x\<rparr>) = closed_prior s"
  "closed_prior (s\<lparr>snackbar := y\<rparr>) = closed_prior s"
  by (simp_all add: closed_prior_def split: option.splits)

lemma callToUser_deferred:
  "mediaStream s = None \<Longrightarrow>
   callToUser s callee = Inr (s\<lparr>media_requests := media_requests s @ [RetryCallToUser]\<rparr>)"
  by (simp add: callToUser_def initMeidaStream_def)

lemma prepare_call_fields:
  "calls (prepare_call s) = closed_prior s" "call (prepare_call s) = None"
  "mediaStream (prepare_call s) = mediaStream s"
  "media_requests (prepare_call s) = media_requests s"
  "peer (prepare_call s) =
     (if peer s = None \<and> currentUser s \<noteq> None then Some \<lparr>connections = []\<rparr> else peer s)"
  by (auto simp: prepare_call_def Let_def endCall_fields initPeerJs_fields closed_prior_def
      initPeerJs_def checkSignedInWithMessage_def showSnackbar_def split: option.splits)

lemma new_call_handlers:
  "(closed_prior s @ [c])[length (calls s) := d] = closed_prior s @ [d]"
  using list_update_length [of "closed_prior s" c "[]" d] by simp

lemma callToUser_unfold:
  assumes "mediaStream s = Some st"
  shows "callToUser s callee =
     (case peer (prepare_call s) of
        None \<Rightarrow> Inl (TypeError, prepare_call s)
      | Some pr \<Rightarrow>
          Inr (reloadUsers ((prepare_call s)
                 \<lparr>peer := Some (add_connection (dom_string callee) (length (calls s)) pr),
                  call := Some (length (calls s)),
                  calls := closed_prior s @ [new_call callee (Some st)]\<rparr>)))"
  using assms
  by (simp add: callToUser_def Let_def add_handler_def new_call_def nth_append
      prepare_call_fields new_call_handlers split: option.splits)

lemma callToUser_no_peer:
  assumes "mediaStream s = Some st" and "peer s = None" and "currentUser s = None"
  shows "threw (callToUser s callee)"
    and "calls (res_state (callToUser s callee)) = closed_prior s"
    and "call (res_state (callToUser s callee)) = None"
    and "media_requests (res_state (callToUser s callee)) = media_requests s"
    and "mediaStream (res_state (callToUser s callee)) = Some st"
  using assms
  by (simp_all add: callToUser_unfold [OF assms(1)] threw_def res_state_def prepare_call_fields)

lemma callToUser_placed:
  assumes "mediaStream s = Some st" and "peer s \<noteq> None \<or> currentUser s \<noteq> None"
  shows "\<not> threw (callToUser s callee)"
    and "calls (res_state (callToUser s callee)) = closed_prior s @ [new_call callee (Some st)]"
    and "call (res_state (callToUser s callee)) = Some (length (calls s))"
    and "media_requests (res_state (callToUser s callee)) = media_requests s"
    and "mediaStream (res_state (callToUser s callee)) = Some st"
proof -
  have "peer (prepare_call s) \<noteq> None"
    using assms(2) by (cases "peer s"; cases "currentUser s") (simp_all add: prepare_call_fields)
  then obtain pr where pr: "peer (prepare_call s) = Some pr"
    by blast
  show "\<not> threw (callToUser s callee)"
    and "calls (res_state (callToUser s callee)) = closed_prior s @ [new_call callee (Some st)]"
    and "call (res_state (callToUser s callee)) = Some (length (calls s))"
    and "media_requests (res_state (callToUser s callee)) = media_requests s"
    and "mediaStream (res_state (callToUser s callee)) = Some st"
    using assms(1)
    by (simp_all add: callToUser_unfold [OF assms(1)] pr threw_def res_state_def reload_fields
        prepare_call_fields(1-4))
qed

lemma answerCall_fields:
  "call (answerCall s user c) = Some c"
  "calls (answerCall s user c) =
     add_handler c (ev_error, OnErrorEndCall)
       (add_handler c (ev_stream, OnStream) (answer_call c (mediaStream s) (closed_prior s)))"
proof -
  let ?s1 = "if call s \<noteq> None then endCall s else s"
  have c1: "calls ?s1 = closed_prior s" and m1: "mediaStream ?s1 = mediaStream s"
    by (auto simp: endCall_fields closed_prior_def)
  show "call (answerCall s user c) = Some c"
    unfolding answerCall_def Let_def by (simp add: reload_fields)
  show "calls (answerCall s user c) =
     add_handler c (ev_error, OnErrorEndCall)
       (add_handler c (ev_stream, OnStream) (answer_call c (mediaStream s) (closed_prior s)))"
    unfolding answerCall_def Let_def
    by (cases "call s") (simp_all add: reload_fields endCall_fields closed_prior_def)
qed

subsection \<open>Live sessions\<close>

lemma set_live_sessions:
  "set (live_sessions s) = {i. i < length (calls s) \<and> live_call (calls s ! i)}"
  by (auto simp: live_sessions_def)

lemma distinct_live_sessions: "distinct (live_sessions s)"
  by (simp add: live_sessions_def)

lemma singleton_list: "distinct xs \<Longrightarrow> set xs = {x} \<Longrightarrow> xs = [x]"
proof (cases xs)
  case Nil
  assume "set xs = {x}"
  with Nil show ?thesis by simp
next
  case (Cons y ys)
  assume d: "distinct xs" and s: "set xs = {x}"
  from s Cons have y: "y = x" by auto
  have "set ys \<subseteq> {x}" using s Cons by auto
  moreover have "x \<notin> set ys" using d Cons y by simp
  ultimately have "ys = []" by (cases ys) auto
  then show ?thesis using Cons y by simp
qed

lemma single_session_iff:
  "single_session s = (\<forall>i < length (calls s). live_call (calls s ! i) \<longrightarrow> call s = Some i)"
  by (auto simp: single_session_def list_all_iff set_live_sessions)

lemma closed_prior_dead:
  assumes "single_session s" and "i < length (calls s)"
  shows "\<not> live_call (closed_prior s ! i)"
proof (cases "call s")
  case None
  have "live_call (calls s ! i) \<longrightarrow> call s = Some i"
    using assms unfolding single_session_iff by blast
  then show ?thesis
    using None by (simp add: closed_prior_def)
next
  case (Some c)
  have l: "live_call (calls s ! i) \<longrightarrow> c = i"
    using assms Some unfolding single_session_iff by simp
  show ?thesis
  proof (cases "i = c")
    case True
    then show ?thesis
      using Some assms(2) by (simp add: closed_prior_def close_call_def live_call_def)
  next
    case False
    then show ?thesis
      using Some l by (simp add: closed_prior_def close_call_def)
  qed
qed

lemma closed_prior_closed:
  "call s = Some c \<Longrightarrow> c < length (calls s) \<Longrightarrow> c_closed (closed_prior s ! c)"
  by (simp add: closed_prior_def close_call_def)

lemma live_add_handler [simp]: "live_call (add_handler c h cs ! i) = live_call (cs ! i)"
  by (cases "i = c") (simp_all add: add_handler_def live_call_def)

lemma closed_add_handler [simp]: "c_closed (add_handler c h cs ! i) = c_closed (cs ! i)"
  by (cases "i = c") (simp_all add: add_handler_def)

lemma answer_call_other: "i \<noteq> c \<Longrightarrow> answer_call c st cs ! i = cs ! i"
  by (simp add: answer_call_def)

lemma closed_answer_call [simp]: "c_closed (answer_call c st cs ! i) = c_closed (cs ! i)"
  by (cases "i = c") (simp_all add: answer_call_def)

lemma live_answer_call_same:
  "c < length cs \<Longrightarrow> live_call (answer_call c st cs ! c) = (\<not> c_closed (cs ! c))"
  by (simp add: answer_call_def live_call_def)

lemma closed_prior_other:
  "call s \<noteq> Some i \<Longrightarrow> closed_prior s ! i = calls s ! i"
  by (cases "call s") (simp_all add: closed_prior_def close_call_def)

lemma single_session_endCall:
  assumes "single_session s"
  shows "single_session (endCall s)"
  unfolding single_session_iff
  using closed_prior_dead [OF assms] by (simp add: endCall_fields)

lemma single_session_callToUser:
  assumes "single_session s"
  shows "single_session (res_state (callToUser s callee))"
proof (cases "mediaStream s")
  case None
  have "single_session (s\<lparr>media_requests := media_requests s @ [RetryCallToUser]\<rparr>)"
    using assms by (simp add: single_session_iff)
  then show ?thesis
    by (simp add: callToUser_deferred [OF None] res_state_def)
next
  case (Some st)
  show ?thesis
  proof (cases "peer s \<noteq> None \<or> currentUser s \<noteq> None")
    case True
    note f = callToUser_placed [OF Some True, of callee]
    show ?thesis
      unfolding single_session_iff f(2) f(3)
      using closed_prior_dead [OF assms]
      by (auto simp: nth_append less_Suc_eq)
  next
    case False
    then have "peer s = None" "currentUser s = None" by simp_all
    note f = callToUser_no_peer [OF Some this, of callee]
    show ?thesis
      unfolding single_session_iff f(2) f(3)
      using closed_prior_dead [OF assms] by simp
  qed
qed

lemma single_session_answerCall:
  assumes "single_session s"
  shows "single_session (answerCall s user c)"
proof -
  have "\<And>i. i < length (calls s) \<Longrightarrow> i \<noteq> c \<Longrightarrow>
      \<not> live_call (answer_call c (mediaStream s) (closed_prior s) ! i)"
    using closed_prior_dead [OF assms] by (simp add: answer_call_other)
  then show ?thesis
    unfolding single_session_iff answerCall_fields by auto
qed

lemma single_session_upd [simp]:
  "single_session (s\<lparr>console := co\<rparr>) = single_session s"
  "single_session (s\<lparr>peerVideo := v\<rparr>) = single_session s"
  by (simp_all add: single_session_iff)

lemma single_session_handlers:
  "single_session s \<Longrightarrow> single_session (run_call_handlers hs ev s x)"
proof (induction hs arbitrary: s)
  case Nil
  then show ?case by simp
next
  case (Cons h hs)
  have "single_session (run_call_handler (snd h) s x)"
    using Cons.prems by (cases "snd h") (simp_all add: single_session_endCall)
  then show ?case
    using Cons by simp
qed

lemma single_session_call_emit:
  "single_session s \<Longrightarrow> single_session (call_emit s c ev x)"
  by (simp add: call_emit_def single_session_handlers)

lemma live_sessions_callToUser:
  assumes "single_session s" and "mediaStream s = Some st"
    and "peer s \<noteq> None \<or> currentUser s \<noteq> None"
  shows "live_sessions (res_state (callToUser s callee)) = [length (calls s)]"
proof (rule singleton_list [OF distinct_live_sessions])
  note f = callToUser_placed [OF assms(2,3), of callee]
  show "set (live_sessions (res_state (callToUser s callee))) = {length (calls s)}"
    unfolding set_live_sessions f(2)
    using closed_prior_dead [OF assms(1)]
    by (auto simp: nth_append less_Suc_eq new_call_def live_call_def)
qed

lemma live_sessions_answerCall:
  assumes "single_session s" and "c < length (calls s)" and "\<not> c_closed (calls s ! c)"
    and "call s \<noteq> Some c"
  shows "live_sessions (answerCall s user c) = [c]"
proof (rule singleton_list [OF distinct_live_sessions])
  have other: "\<And>i. i < length (calls s) \<Longrightarrow> i \<noteq> c \<Longrightarrow>
      \<not> live_call (answer_call c (mediaStream s) (closed_prior s) ! i)"
    using closed_prior_dead [OF assms(1)] by (simp add: answer_call_other)
  have same: "live_call (answer_call c (mediaStream s) (closed_prior s) ! c)"
    using assms(2,3,4) by (simp add: live_answer_call_same closed_prior_other)
  show "set (live_sessions (answerCall s user c)) = {c}"
    unfolding set_live_sessions answerCall_fields
    using other same assms(2) by auto
qed

subsection \<open>Every reaction of the page keeps the invariant\<close>

lemma single_session_cong:
  "calls s' = calls s \<Longrightarrow> call s' = call s \<Longrightarrow> single_session s' = single_session s"
  by (simp add: single_session_iff)

lemma roster_frame_single:
  "roster_frame s s' \<Longrightarrow> single_session s' = single_session s"
  by (rule single_session_cong) (simp_all add: roster_frame_fields)

lemma saveUser_calls [simp]: "calls (saveUser s) = calls s" "call (saveUser s) = call s"
  by (simp_all add: saveUser_def checkSignedInWithMessage_def showSnackbar_def split: option.splits)

lemma endPeerJs_calls [simp]: "calls (endPeerJs s) = calls s" "call (endPeerJs s) = call s"
  by (simp_all add: endPeerJs_def)

lemma clearUsers_calls [simp]: "calls (clearUsers s) = calls s" "call (clearUsers s) = call s"
  by (simp_all add: clearUsers_def)

lemma loadUsers_calls [simp]: "calls (loadUsers s) = calls s" "call (loadUsers s) = call s"
  by (simp_all add: roster_frame_fields [OF loadUsers_frame])

lemma showSnackbar_calls [simp]:
  "calls (showSnackbar n s) = calls s" "call (showSnackbar n s) = call s"
  by (simp_all add: showSnackbar_def)

lemma initPeerJs_calls [simp]: "calls (initPeerJs s) = calls s" "call (initPeerJs s) = call s"
  by (simp_all add: initPeerJs_fields)

lemma onAuthStateChanged_calls:
  "calls (onAuthStateChanged s u) = calls s" "call (onAuthStateChanged s u) = call s"
  by (simp_all add: onAuthStateChanged_def Let_def initMeidaStream_def loadMessages_def
      split: option.splits)

lemma onOnlineState_calls:
  "calls (onOnlineState s v) = calls s" "call (onOnlineState s v) = call s"
  by (simp_all add: onOnlineState_def Let_def)

lemma saveMessage_calls:
  "calls (res_state (saveMessage s)) = calls s" "call (res_state (saveMessage s)) = call s"
  by (simp_all add: saveMessage_def res_state_def checkSignedInWithMessage_def showSnackbar_def
      split: option.splits)

lemma saveImageMessage_calls:
  "calls (res_state (saveImageMessage s)) = calls s"
  "call (res_state (saveImageMessage s)) = call s"
  by (simp_all add: saveImageMessage_def Let_def res_state_def checkSignedInWithMessage_def
      showSnackbar_def split: option.splits)

lemma displayMessage_calls:
  "calls (displayMessage s key n t p i) = calls s" "call (displayMessage s key n t p i) = call s"
  by (simp_all add: displayMessage_def Let_def setMessageDiv_def ensureMessageDiv_def
      setImageUrl_def)

lemma run_message_listeners_calls:
  "calls (run_message_listeners ls k key v s) = calls s \<and>
   call (run_message_listeners ls k key v s) = call s"
  by (induction ls arbitrary: s) (simp_all add: displayMessage_calls)

lemma run_listeners_frame: "roster_frame s (run_listeners ls ev s)"
proof (induction ls arbitrary: s)
  case Nil
  show ?case by simp
next
  case (Cons l ls)
  show ?case
  proof (cases "fst l = event_kind ev")
    case True
    have "roster_frame s (run_users_handler (snd l) s (event_data ev))"
      by (cases "snd l") (simp_all add: run_setUser_frame reloadUsers_frame)
    from roster_frame_trans [OF this Cons.IH] show ?thesis
      using True by simp
  next
    case False
    then show ?thesis using Cons.IH by simp
  qed
qed

lemma users_child_event_frame:
  "roster_frame (s\<lparr>users_db := apply_to_db ev (users_db s)\<rparr>) (users_child_event s ev)"
  by (simp add: users_child_event_def Let_def run_listeners_frame)

lemma reciveCall_calls:
  "calls (res_state (reciveCall s c)) = calls s" "call (res_state (reciveCall s c)) = call s"
  by (simp_all add: reciveCall_def res_state_def showSnackbar_def split: sum.splits)

lemma single_session_inbound:
  "single_session (s\<lparr>calls := calls s @ [inbound_call p]\<rparr>) = single_session s"
  by (auto simp: single_session_iff nth_append less_Suc_eq inbound_call_def live_call_def)

lemma single_session_media:
  assumes "single_session s"
  shows "single_session (res_state (getUserMedia_success s i stream))"
proof (cases "i < length (media_requests s)")
  case False
  then show ?thesis using assms by (simp add: getUserMedia_success_def res_state_def)
next
  case True
  let ?s' = "s\<lparr>media_requests := take i (media_requests s) @ drop (Suc i) (media_requests s),
                mediaStream := Some stream, myVideo := Some stream\<rparr>"
  have s': "single_session ?s'"
    using assms by (simp add: single_session_iff)
  show ?thesis
  proof (cases "media_requests s ! i")
    case AfterSignIn
    have "single_session (loadUsers (saveUser (initPeerJs ?s'))) = single_session ?s'"
      by (rule single_session_cong) simp_all
    then show ?thesis
      using True AfterSignIn s'
      by (simp add: getUserMedia_success_def run_media_cb_def res_state_def)
  next
    case RetryCallToUser
    then show ?thesis
      using True single_session_callToUser [OF s', of None]
      by (simp add: getUserMedia_success_def run_media_cb_def)
  qed
qed

lemma single_session_step:
  assumes "single_session s"
  shows "single_session (step s e)"
proof (cases e)
  case (UsersChild ev)
  have "single_session (users_child_event s ev) =
        single_session (s\<lparr>users_db := apply_to_db ev (users_db s)\<rparr>)"
    by (rule roster_frame_single [OF users_child_event_frame])
  then show ?thesis
    using assms UsersChild by (simp add: single_session_iff)
next
  case (PeerCall p)
  have "single_session (res_state (reciveCall (s\<lparr>calls := calls s @ [inbound_call p]\<rparr>)
          (length (calls s)))) = single_session (s\<lparr>calls := calls s @ [inbound_call p]\<rparr>)"
    by (rule single_session_cong) (simp_all only: reciveCall_calls)
  then show ?thesis
    using assms PeerCall by (simp add: single_session_inbound)
next
  case (MediaGranted i stream)
  then show ?thesis using assms by (simp add: single_session_media)
next
  case (CallEvent c ev x)
  then show ?thesis using assms by (simp add: single_session_call_emit)
next
  case (ClickCall callee)
  then show ?thesis using assms by (simp add: single_session_callToUser)
next
  case ClickEnd
  then show ?thesis using assms by (simp add: single_session_endCall)
next
  case (ClickAnswer user c)
  then show ?thesis using assms by (simp add: single_session_answerCall)
next
  case (AuthStateChanged u)
  then show ?thesis
    using assms single_session_cong [OF onAuthStateChanged_calls] by simp
next
  case (OnlineState v)
  then show ?thesis
    using assms single_session_cong [OF onOnlineState_calls] by simp
next
  case SubmitMessage
  then show ?thesis
    using assms single_session_cong [OF saveMessage_calls] by simp
next
  case (PickFile f)
  then show ?thesis
    using assms single_session_cong [OF saveImageMessage_calls, of "s\<lparr>picker := f\<rparr>"]
    by (simp add: single_session_iff)
next
  case (MessagesChild k key v)
  then show ?thesis
    using assms single_session_cong [of "messages_child_event s (k, key, v)" s]
    by (simp add: messages_child_event_def run_message_listeners_calls)
qed (use assms in \<open>simp_all add: single_session_iff toggleButton_def saveMessage_then_def
      saveMessage_catch_def getMetadata_then_def getUserMedia_error_def peer_on_open_def
      peer_on_error_def\<close>)

lemma single_session_run: "single_session s \<Longrightarrow> single_session (run s es)"
  by (induction es arbitrary: s) (simp_all add: single_session_step)

lemma single_session_init: "single_session (init_state\<lparr>page := pg\<rparr>)"
  by (simp add: single_session_def live_sessions_def init_state_def)

text \<open>
  C1. Every state the page reaches from its initial state, whatever the static elements
  of its document, has at most one live session,
  the one held in \<^verbatim>\<open>this.call\<close>: this holds initially and every reaction of the page
  keeps it, in particular \<open>callToUser\<close> (however it ends), \<open>answerCall\<close>, \<open>endCall\<close> and
  every event of a call handle. When \<open>callToUser\<close> has a media stream and a broker peer
  (or a signed-in user, for whom it makes one), it returns normally, \<^verbatim>\<open>this.call\<close> is
  the new handle, to the callee given, the new handle is the only live session, and the
  session held before is closed. After \<open>answerCall\<close>, \<^verbatim>\<open>this.call\<close> is the handle
  answered, the session held before is closed, and the handle answered is the only live
  session when it was open and not already held.
\<close>

theorem single_session_at_every_step:
  assumes "single_session s"
  shows "single_session (run (init_state\<lparr>page := pg\<rparr>) es) \<and>
         single_session (step s e) \<and>
         single_session (res_state (callToUser s callee)) \<and>
         single_session (answerCall s user c) \<and>
         single_session (endCall s) \<and>
         single_session (call_emit s c ev x) \<and>
         (mediaStream s \<noteq> None \<and> (peer s \<noteq> None \<or> currentUser s \<noteq> None) \<longrightarrow>
            \<not> threw (callToUser s callee) \<and>
            call (res_state (callToUser s callee)) = Some (length (calls s)) \<and>
            live_sessions (res_state (callToUser s callee)) = [length (calls s)] \<and>
            c_peer (calls (res_state (callToUser s callee)) ! length (calls s)) = callee \<and>
            (\<forall>c0 < length (calls s). call s = Some c0 \<longrightarrow>
               c_closed (calls (res_state (callToUser s callee)) ! c0))) \<and>
         call (answerCall s user c) = Some c \<and>
         (c < length (calls s) \<and> \<not> c_closed (calls s ! c) \<and> call s \<noteq> Some c \<longrightarrow>
            live_sessions (answerCall s user c) = [c]) \<and>
         (\<forall>c0 < length (calls s). call s = Some c0 \<longrightarrow> c_closed (calls (answerCall s user c) ! c0))"
proof (intro conjI impI allI)
  assume h: "mediaStream s \<noteq> None \<and> (peer s \<noteq> None \<or> currentUser s \<noteq> None)"
  then obtain st where st: "mediaStream s = Some st" by blast
  from h have pc: "peer s \<noteq> None \<or> currentUser s \<noteq> None" by simp
  note f = callToUser_placed [OF st pc, of callee]
  show "\<not> threw (callToUser s callee)" by (rule f(1))
  show "call (res_state (callToUser s callee)) = Some (length (calls s))" by (rule f(3))
  show "live_sessions (res_state (callToUser s callee)) = [length (calls s)]"
    by (rule live_sessions_callToUser [OF assms st pc])
  show "c_peer (calls (res_state (callToUser s callee)) ! length (calls s)) = callee"
    unfolding f(2) using nth_append_length [of "closed_prior s"] by (simp add: new_call_def)
  fix c0 assume "c0 < length (calls s)" "call s = Some c0"
  then show "c_closed (calls (res_state (callToUser s callee)) ! c0)"
    unfolding f(2) by (simp add: nth_append closed_prior_closed)
next
  assume "c < length (calls s) \<and> \<not> c_closed (calls s ! c) \<and> call s \<noteq> Some c"
  then show "live_sessions (answerCall s user c) = [c]"
    using live_sessions_answerCall [OF assms] by blast
next
  fix c0 assume "c0 < length (calls s)" "call s = Some c0"
  then show "c_closed (calls (answerCall s user c) ! c0)"
    by (simp add: answerCall_fields closed_prior_closed)
next
  show "single_session (run (init_state\<lparr>page := pg\<rparr>) es)"
    by (rule single_session_run [OF single_session_init])
  show "single_session (step s e)"
    by (rule single_session_step [OF assms])
qed (simp_all add: assms single_session_callToUser single_session_answerCall
      single_session_endCall single_session_call_emit answerCall_fields)

theorem single_session_at_every_step_witness:
  "single_session (run init_state [AuthStateChanged (Some bob), MediaGranted 0 0,
      ClickCall (Some ''p1''), PeerCall ''p2'', ClickAnswer alice_user 1]) \<and>
   single_session busy_state \<and>
   live_sessions busy_state = [0] \<and>
   live_sessions (res_state (callToUser busy_state (Some ''p3''))) = [2] \<and>
   c_closed (calls (res_state (callToUser busy_state (Some ''p3''))) ! 0) \<and>
   live_sessions (answerCall busy_state alice_user 1) = [1] \<and>
   c_closed (calls (answerCall busy_state alice_user 1) ! 0)"
  using single_session_at_every_step [where s = busy_state and callee = "Some ''p3''"
      and user = alice_user and c = 1 and ev = ev_close and x = 0
      and es = "[AuthStateChanged (Some bob), MediaGranted 0 0, ClickCall (Some ''p1''),
                 PeerCall ''p2'', ClickAnswer alice_user 1]"
      and pg = "[MessagesChildren, UsersChildren]"]
  by (simp add: busy_state_def signed_in_state_def init_state_def bob_def new_call_def
      inbound_call_def single_session_def live_sessions_def live_call_def)

text \<open>
  C2 fails for a session accepted by \<open>answerCall\<close>, which registers listeners for
  \<^verbatim>\<open>stream\<close> and \<^verbatim>\<open>error\<close> only: Bob answers the offer, the broker signals
  \<^verbatim>\<open>close\<close> on the handle, and nothing happens; the session stays in \<^verbatim>\<open>this.call\<close>.
  An \<^verbatim>\<open>error\<close> on the same handle, and a \<^verbatim>\<open>close\<close> on a handle made by
  \<open>callToUser\<close>, do end the session.
\<close>

theorem answered_call_ignores_close:
  "call (answerCall offered_state alice_user 0) = Some 0 \<and>
   c_handlers (calls (answerCall offered_state alice_user 0) ! 0) =
     [(ev_stream, OnStream), (ev_error, OnErrorEndCall)] \<and>
   call_emit (answerCall offered_state alice_user 0) 0 ev_close 0 =
     answerCall offered_state alice_user 0 \<and>
   call (call_emit (answerCall offered_state alice_user 0) 0 ev_error 0) = None \<and>
   call (res_state (callToUser signed_in_state (Some ''p1''))) = Some 0 \<and>
   call (call_emit (res_state (callToUser signed_in_state (Some ''p1''))) 0 ev_close 0) = None"
  by (simp add: offered_state_def signed_in_state_def init_state_def bob_def inbound_call_def
      alice_user_def callToUser_def prepare_call_def answerCall_def endCall_def reloadUsers_def
      loadUsers_def clearUsers_def initMeidaStream_def initPeerJs_def
      checkSignedInWithMessage_def add_handler_def answer_call_def close_call_def
      add_connection_def call_emit_def res_state_def threw_def Let_def)

text \<open>
  C3 fails on the callee of the retried call: Bob calls \<^verbatim>\<open>p1\<close> before the media stream
  is there, the call is handed to \<open>initMeidaStream\<close>, and when the stream arrives the
  continuation runs \<^verbatim>\<open>callToUser()\<close> with no argument: a session is created whose
  callee is undefined.
\<close>

theorem deferred_call_loses_callee:
  "callToUser no_media_state (Some ''p1'') =
     Inr (no_media_state\<lparr>media_requests := [RetryCallToUser]\<rparr>) \<and>
   call (res_state (getUserMedia_success
      (no_media_state\<lparr>media_requests := [RetryCallToUser]\<rparr>) 0 7)) = Some 0 \<and>
   map c_peer (calls (res_state (getUserMedia_success
      (no_media_state\<lparr>media_requests := [RetryCallToUser]\<rparr>) 0 7))) = [None]"
  by (simp add: no_media_state_def signed_in_state_def init_state_def bob_def
      getUserMedia_success_def run_media_cb_def
      callToUser_def prepare_call_def answerCall_def endCall_def reloadUsers_def
      loadUsers_def clearUsers_def initMeidaStream_def initPeerJs_def
      checkSignedInWithMessage_def add_handler_def answer_call_def close_call_def
      add_connection_def call_emit_def res_state_def threw_def Let_def)

section \<open>Media stream\<close>


lemma saveUser_media [simp]: "mediaStream (saveUser s) = mediaStream s"
  by (simp add: saveUser_def checkSignedInWithMessage_def showSnackbar_def split: option.splits)

lemma small_steps_media [simp]:
  "mediaStream (endPeerJs s) = mediaStream s"
  "mediaStream (clearUsers s) = mediaStream s"
  "mediaStream (loadUsers s) = mediaStream s"
  "mediaStream (showSnackbar n s) = mediaStream s"
  "mediaStream (initPeerJs s) = mediaStream s"
  "mediaStream (endCall s) = mediaStream s"
  "mediaStream (toggleButton s) = mediaStream s"
  by (simp_all add: endPeerJs_def clearUsers_def roster_frame_fields(4) [OF loadUsers_frame]
      showSnackbar_def initPeerJs_fields(3) endCall_fields(4) toggleButton_def)

















end
